theory Spec2Isabelle
  imports Main
begin

section \<open>Data model of src/module/dice/damage-roll.mjs\<close>

text \<open>
  The module extends the host's \<open>Roll\<close> class. A roll owns a list of term objects, a
  compiled formula string and an options bag. Numbers are modelled as \<open>int\<close> (the dice
  counts, faces and multipliers the module works on are integers; JavaScript computes
  them exactly below \<open>2^53\<close>). An option that the source tests for truthiness only
  (\<open>preprocessed\<close>, \<open>configured\<close>, \<open>multiplyNumeric\<close>, \<open>powerfulfantastic\<close>) is a
  \<open>bool\<close>; an option the source tests against \<open>undefined\<close> or defaults with \<open>??\<close> is an
  \<open>option\<close>, with \<open>None\<close> for \<open>undefined\<close>.
\<close>

datatype host_error = HostError string

record term_options =
  baseNumber :: "int option"
  termFantastic :: "bool option"
  termFlavor :: "string option"

text \<open>
  The term classes of \<open>foundry.dice.terms\<close> that the source tests with \<open>instanceof\<close>.
  A dice term carries \<open>number\<close>, \<open>faces\<close>, its modifier text and \<open>options\<close>; a numeric term
  carries \<open>number\<close> and \<open>options\<close>; a string term carries \<open>term\<close>. \<open>UndefinedTerm\<close> is the
  JavaScript value \<open>undefined\<close> stored in an array slot (what \<open>xs[0]\<close> of an empty array
  puts there); \<open>OtherTerm\<close> is any other term class (a pool term, say).
\<close>

datatype roll_term =
    StringTerm string
  | ParentheticalTerm string
  | FunctionTerm string
  | DiceTerm int int string term_options
  | NumericTerm int term_options
  | OperatorTerm string
  | OtherTerm string
  | UndefinedTerm

type_synonym roll_data = "(string \<times> string) list"

record roll_options =
  preprocessed :: bool
  configured :: bool
  fantastic :: "bool option"
  fantasticBonusDice :: "int option"
  fantasticMultiplier :: "int option"
  multiplyNumeric :: bool
  powerfulfantastic :: bool
  fantasticBonusDamage :: "string option"
  flavor :: "string option"
  rollMode :: "string option"

record damage_roll =
  terms :: "roll_term list"
  formula :: string
  options :: roll_options
  rollData :: roll_data
  evaluated :: bool

record message_data =
  msgFlavor :: "string option"
  msgRollMode :: "string option"
  msgUser :: "string option"
  msgSound :: "string option"
  msgRolls :: "damage_roll list"
  msgType :: "string option"

datatype chat_message = ChatMessage message_data

datatype message_result = Created chat_message | Prepared message_data

text \<open>
  The host application is not part of the repository: every call into it is a field of
  the record \<open>host\<close>, passed to each operation. The calls that the host documents as
  failing (constructing a roll from a formula, evaluating a term or a roll, building
  and creating a chat message, rebuilding a roll from stored data) return
  \<open>host_error + _\<close>, with \<open>Inl\<close> the exception thrown or the rejection of the promise.
  \<^item> \<open>newRoll f d opts\<close> is \<open>new Roll(f, d, opts)\<close>, the base constructor;
  \<^item> \<open>isDeterministic t\<close> and \<open>evaluateTotal t\<close> are \<open>t.isDeterministic\<close> and the text
    that a template literal prints for \<open>t.evaluate().total\<close>;
  \<^item> \<open>getFormula ts\<close> is the static \<open>getFormula(ts)\<close>;
  \<^item> \<open>alter m a n\<close> is the dice count that \<open>alter(m, a)\<close> leaves in a dice term whose
    count was \<open>n\<close> (the method changes nothing else in the term);
  \<^item> \<open>localize\<close> is \<open>game.i18n.localize\<close>; \<open>numericOptions fl\<close> is the options bag of
    a numeric term built with \<open>{flavor: fl}\<close> as second argument of its constructor;
  \<^item> \<open>evaluateRoll\<close> is \<open>roll.evaluate({async: true})\<close>; \<open>userId\<close>, \<open>diceSound\<close>,
    \<open>generation\<close> and \<open>rollType\<close> are \<open>game.user.id\<close>, \<open>CONFIG.sounds.dice\<close>,
    \<open>game.release.generation\<close> and \<open>CONST.CHAT_MESSAGE_TYPES.ROLL\<close>;
  \<^item> \<open>newMessage\<close>, \<open>toObject\<close>, \<open>applyRollMode\<close> and \<open>createMessage\<close> are the
    constructor and the methods of the chat message class;
  \<^item> \<open>superFromData\<close> is \<open>super.fromData(data)\<close>.
\<close>

record host =
  newRoll :: "string \<Rightarrow> roll_data \<Rightarrow> roll_options \<Rightarrow> host_error + damage_roll"
  isDeterministic :: "roll_term \<Rightarrow> bool"
  evaluateTotal :: "roll_term \<Rightarrow> host_error + string"
  getFormula :: "roll_term list \<Rightarrow> string"
  alter :: "int \<Rightarrow> int \<Rightarrow> int \<Rightarrow> int"
  localize :: "string \<Rightarrow> string"
  numericOptions :: "string \<Rightarrow> term_options"
  evaluateRoll :: "damage_roll \<Rightarrow> host_error + damage_roll"
  userId :: string
  diceSound :: string
  generation :: nat
  rollType :: string
  newMessage :: "message_data \<Rightarrow> host_error + chat_message"
  toObject :: "chat_message \<Rightarrow> message_data"
  applyRollMode :: "string \<Rightarrow> chat_message \<Rightarrow> chat_message"
  createMessage :: "message_data \<Rightarrow> string option \<Rightarrow> host_error + chat_message"
  superFromData :: "string \<Rightarrow> host_error + damage_roll"

text \<open>The options bag and the data object of a roll built with neither (\<open>new Roll(f)\<close>).\<close>

definition noOptions :: roll_options where
  "noOptions = \<lparr>preprocessed = False, configured = False, fantastic = None,
     fantasticBonusDice = None, fantasticMultiplier = None, multiplyNumeric = False,
     powerfulfantastic = False, fantasticBonusDamage = None, flavor = None,
     rollMode = None\<rparr>"

section \<open>Array and regular-expression helpers\<close>

text \<open>\<open>xs[i]\<close> for any integer \<open>i\<close>: \<open>None\<close> is \<open>undefined\<close>, out of range.\<close>

definition termAt :: "roll_term list \<Rightarrow> int \<Rightarrow> roll_term option" where
  "termAt ts i = (if 0 \<le> i \<and> i < int (length ts) then Some (ts ! nat i) else None)"

text \<open>\<open>xs.splice(start, deleteCount, item)\<close> for \<open>start\<close> within the array.\<close>

definition splice :: "roll_term list \<Rightarrow> nat \<Rightarrow> nat \<Rightarrow> roll_term \<Rightarrow> roll_term list" where
  "splice ts start deleteCount item = take start ts @ item # drop (start + deleteCount) ts"

definition isDigit :: "char \<Rightarrow> bool" where
  "isDigit c = (c \<in> set ''0123456789'')"

text \<open>\<open>/^d\d+/.test(s)\<close>: a \<open>d\<close>, then at least one digit, then anything.\<close>

fun shorthandDie :: "string \<Rightarrow> bool" where
  "shorthandDie (c # e # _) = (c = CHR ''d'' \<and> isDigit e)"
| "shorthandDie _ = False"

text \<open>\<open>s.match(/^[0-9]*d$/)\<close>: digits, then a final \<open>d\<close>.\<close>

definition dicePrefix :: "string \<Rightarrow> bool" where
  "dicePrefix s = (s \<noteq> [] \<and> last s = CHR ''d'' \<and> list_all isDigit (butlast s))"

text \<open>\<open>s.match(/^d[0-9]*$/)\<close>: a \<open>d\<close>, then digits only.\<close>

fun diceSuffix :: "string \<Rightarrow> bool" where
  "diceSuffix (c # ds) = (c = CHR ''d'' \<and> list_all isDigit ds)"
| "diceSuffix [] = False"

text \<open>The \<open>instanceof\<close> tests, on a value that may be \<open>undefined\<close>.\<close>

fun isStringTerm :: "roll_term option \<Rightarrow> bool" where
  "isStringTerm (Some (StringTerm s)) = True"
| "isStringTerm _ = False"

fun isParentheticalTerm :: "roll_term option \<Rightarrow> bool" where
  "isParentheticalTerm (Some (ParentheticalTerm s)) = True"
| "isParentheticalTerm _ = False"

fun isFunctionTerm :: "roll_term option \<Rightarrow> bool" where
  "isFunctionTerm (Some (FunctionTerm s)) = True"
| "isFunctionTerm _ = False"

fun isOperatorTerm :: "roll_term option \<Rightarrow> bool" where
  "isOperatorTerm (Some (OperatorTerm s)) = True"
| "isOperatorTerm _ = False"

text \<open>The field \<open>term\<close> of a string term (read only after the \<open>instanceof\<close> test).\<close>

fun termText :: "roll_term option \<Rightarrow> string" where
  "termText (Some (StringTerm s)) = s"
| "termText _ = []"

text \<open>\<open>new Roll(f).terms[0]\<close>: the first term of a fresh roll, \<open>undefined\<close> if it has none.\<close>

definition firstTerm :: "host \<Rightarrow> string \<Rightarrow> host_error + roll_term" where
  "firstTerm h f =
     (case newRoll h f [] noOptions of
        Inl e \<Rightarrow> Inl e
      | Inr r \<Rightarrow> Inr (case termAt (terms r) 0 of None \<Rightarrow> UndefinedTerm | Some t \<Rightarrow> t))"

section \<open>preprocessFormula\<close>

text \<open>
  One turn of the loop of \<open>preprocessFormula\<close>, at index \<open>i\<close> of the array as it is then
  (\<open>i < length ts\<close>): the three branches of the source, in its order.
\<close>

definition preprocessStep :: "host \<Rightarrow> nat \<Rightarrow> roll_term list \<Rightarrow> host_error + roll_term list" where
  "preprocessStep h i ts =
     (let cur = ts ! i;
          nextTerm = termAt ts (int i + 1);
          prevTerm = termAt ts (int i - 1)
      in
        if isStringTerm (Some cur) \<and> shorthandDie (termText (Some cur))
           \<and> \<not> isParentheticalTerm prevTerm
        then
          (case firstTerm h (CHR ''1'' # termText (Some cur)) of
             Inl e \<Rightarrow> Inl e
           | Inr newTerm \<Rightarrow> Inr (splice ts i 1 newTerm))
        else if isParentheticalTerm (Some cur) \<and> isStringTerm prevTerm
                \<and> dicePrefix (termText prevTerm)
        then
          (if isDeterministic h cur then
             (case evaluateTotal h cur of
                Inl e \<Rightarrow> Inl e
              | Inr tot \<Rightarrow>
                  (let newFormula = termText prevTerm @ tot;
                       merged = (if isStringTerm nextTerm
                                 then (newFormula @ termText nextTerm, 3)
                                 else (newFormula, 2))
                   in case firstTerm h (fst merged) of
                        Inl e \<Rightarrow> Inl e
                      | Inr newTerm \<Rightarrow> Inr (splice ts (i - 1) (snd merged) newTerm)))
           else Inr ts)
        else if (isParentheticalTerm (Some cur) \<or> isFunctionTerm (Some cur))
                \<and> isStringTerm nextTerm \<and> diceSuffix (termText nextTerm)
        then
          (if isDeterministic h cur then
             (case evaluateTotal h cur of
                Inl e \<Rightarrow> Inl e
              | Inr tot \<Rightarrow>
                  (case firstTerm h (tot @ termText nextTerm) of
                     Inl e \<Rightarrow> Inl e
                   | Inr newTerm \<Rightarrow> Inr (splice ts i 2 newTerm)))
           else Inr ts)
        else Inr ts)"

lemma preprocessStep_length:
  "i < length ts \<Longrightarrow> preprocessStep h i ts = Inr ts' \<Longrightarrow> length ts' \<le> length ts"
  by (auto simp: preprocessStep_def Let_def splice_def termAt_def
      split: if_splits sum.splits)

text \<open>
  The loop \<open>for ( let [i, term] of this.terms.entries() )\<close>: the array iterator reads the
  live array, so each turn takes the next index of the array as the turns before left
  it, and the loop ends when the index reaches its current length.
\<close>

function preprocessLoop :: "host \<Rightarrow> nat \<Rightarrow> roll_term list \<Rightarrow> host_error + roll_term list" where
  "preprocessLoop h i ts =
     (if i < length ts then
        (case preprocessStep h i ts of
           Inl e \<Rightarrow> Inl e
         | Inr ts' \<Rightarrow> preprocessLoop h (i + 1) ts')
      else Inr ts)"
  by pat_completeness auto
termination
proof (relation "measure (\<lambda>(h, i, ts). length ts - i)")
  show "wf (measure (\<lambda>(h, i, ts). length ts - i))"
    by simp
next
  fix h :: host and i :: nat and ts ts' :: "roll_term list"
  assume "i < length ts" and "preprocessStep h i ts = Inr ts'"
  then have "length ts' \<le> length ts" and "i < length ts"
    by (auto dest: preprocessStep_length)
  then show "((h, i + 1, ts'), (h, i, ts)) \<in> measure (\<lambda>(h, i, ts). length ts - i)"
    by simp
qed

definition preprocessFormula :: "host \<Rightarrow> damage_roll \<Rightarrow> host_error + damage_roll" where
  "preprocessFormula h r =
     (case preprocessLoop h 0 (terms r) of
        Inl e \<Rightarrow> Inl e
      | Inr ts \<Rightarrow>
          Inr (r\<lparr>terms := ts, formula := getFormula h ts,
                 options := (options r)\<lparr>preprocessed := True\<rparr>\<rparr>))"

section \<open>configureDamage\<close>

text \<open>
  The body of the loop of \<open>configureDamage\<close> for the term at index \<open>i\<close>, with the flat
  bonus accumulated so far; it returns the term as the body leaves it and the new
  flat bonus. \<open>this.isFantastic\<close> is the truthiness of \<open>options.fantastic\<close>.
\<close>

fun configureTerm :: "host \<Rightarrow> roll_options \<Rightarrow> nat \<Rightarrow> int \<Rightarrow> roll_term \<Rightarrow> roll_term \<times> int" where
  "configureTerm h opts i flatBonus (DiceTerm n f m topts) =
     (let base = (case baseNumber topts of None \<Rightarrow> n | Some b \<Rightarrow> b);
          topts1 = topts\<lparr>baseNumber := Some base\<rparr>
      in
        if fantastic opts = Some True then
          (let cm = (case fantasticMultiplier opts of None \<Rightarrow> 2 | Some c \<Rightarrow> c);
               flatBonus1 = (if powerfulfantastic opts then flatBonus + base * f else flatBonus);
               cm1 = (if powerfulfantastic opts then max 1 (cm - 1) else cm);
               cb = (case fantasticBonusDice opts of
                       None \<Rightarrow> 0
                     | Some b \<Rightarrow> if b \<noteq> 0 \<and> i = 0 then b else 0)
           in (DiceTerm (alter h cm1 cb base) f m (topts1\<lparr>termFantastic := Some True\<rparr>),
               flatBonus1))
        else (DiceTerm base f m topts1, flatBonus))"
| "configureTerm h opts i flatBonus (NumericTerm n topts) =
     (if multiplyNumeric opts then
        (let base = (case baseNumber topts of None \<Rightarrow> n | Some b \<Rightarrow> b);
             topts1 = topts\<lparr>baseNumber := Some base\<rparr>
         in
           if fantastic opts = Some True then
             (NumericTerm (base * (case fantasticMultiplier opts of None \<Rightarrow> 2 | Some c \<Rightarrow> c))
                (topts1\<lparr>termFantastic := Some True\<rparr>), flatBonus)
           else (NumericTerm base topts1, flatBonus))
      else (NumericTerm n topts, flatBonus))"
| "configureTerm h opts i flatBonus t = (t, flatBonus)"

text \<open>The loop over \<open>this.terms.entries()\<close>; the array keeps its length while it runs.\<close>

fun configureTerms :: "host \<Rightarrow> roll_options \<Rightarrow> nat \<Rightarrow> int \<Rightarrow> roll_term list \<Rightarrow> roll_term list \<times> int" where
  "configureTerms h opts i flatBonus [] = ([], flatBonus)"
| "configureTerms h opts i flatBonus (t # ts) =
     (let (t1, flatBonus1) = configureTerm h opts i flatBonus t;
          (ts1, flatBonus2) = configureTerms h opts (i + 1) flatBonus1 ts
      in (t1 # ts1, flatBonus2))"

text \<open>The two terms pushed for the powerful fantastic bonus, if any.\<close>

definition powerfulBonusTerms :: "host \<Rightarrow> roll_options \<Rightarrow> int \<Rightarrow> roll_term list" where
  "powerfulBonusTerms h opts flatBonus =
     (if powerfulfantastic opts \<and> flatBonus > 0
      then [OperatorTerm ''+'',
            NumericTerm flatBonus
              (numericOptions h (localize h ''MARVEL_MULTIVERSE.Powerfulfantastic''))]
      else [])"

text \<open>The terms pushed for \<open>options.fantasticBonusDamage\<close>, if any.\<close>

definition extraDamageTerms :: "host \<Rightarrow> damage_roll \<Rightarrow> host_error + roll_term list" where
  "extraDamageTerms h r =
     (case fantasticBonusDamage (options r) of
        None \<Rightarrow> Inr []
      | Some s \<Rightarrow>
          if fantastic (options r) = Some True \<and> s \<noteq> [] then
            (case newRoll h s (rollData r) noOptions of
               Inl e \<Rightarrow> Inl e
             | Inr extra \<Rightarrow>
                 Inr ((if isOperatorTerm (termAt (terms extra) 0) then []
                       else [OperatorTerm ''+'']) @ terms extra))
          else Inr [])"

definition configureDamage :: "host \<Rightarrow> damage_roll \<Rightarrow> host_error + damage_roll" where
  "configureDamage h r =
     (let (ts1, flatBonus) = configureTerms h (options r) 0 0 (terms r);
          ts2 = ts1 @ powerfulBonusTerms h (options r) flatBonus
      in case extraDamageTerms h r of
           Inl e \<Rightarrow> Inl e
         | Inr extra \<Rightarrow>
             Inr (r\<lparr>terms := ts2 @ extra, formula := getFormula h (ts2 @ extra),
                    options := (options r)\<lparr>configured := True\<rparr>\<rparr>))"

text \<open>
  The roll object as a call of \<open>configureDamage\<close> leaves it, whether the call returns
  or throws. The method works on the object in place: when
  \<open>new Roll(options.fantasticBonusDamage)\<close> throws, the loop has already altered the
  terms and the powerful fantastic bonus is already pushed, while \<open>_formula\<close> and
  \<open>options.configured\<close>, set after it, are as they were.
\<close>

definition configureDamageState :: "host \<Rightarrow> damage_roll \<Rightarrow> damage_roll" where
  "configureDamageState h r =
     (let (ts1, flatBonus) = configureTerms h (options r) 0 0 (terms r);
          ts2 = ts1 @ powerfulBonusTerms h (options r) flatBonus
      in case extraDamageTerms h r of
           Inl e \<Rightarrow> r\<lparr>terms := ts2\<rparr>
         | Inr extra \<Rightarrow>
             r\<lparr>terms := ts2 @ extra, formula := getFormula h (ts2 @ extra),
               options := (options r)\<lparr>configured := True\<rparr>\<rparr>)"

section \<open>The constructor and fromData\<close>

text \<open>
  \<open>new DamageRoll(formula, data, options)\<close>: the base constructor, then the
  preprocessing unless \<open>options.preprocessed\<close>, then \<open>configureDamage\<close> when
  \<open>options.fantastic\<close> is defined and \<open>options.configured\<close> is not set.
\<close>

definition construct :: "host \<Rightarrow> string \<Rightarrow> roll_data \<Rightarrow> roll_options \<Rightarrow> host_error + damage_roll" where
  "construct h f d opts =
     (case newRoll h f d opts of
        Inl e \<Rightarrow> Inl e
      | Inr r0 \<Rightarrow>
          (case (if \<not> preprocessed (options r0) then preprocessFormula h r0 else Inr r0) of
             Inl e \<Rightarrow> Inl e
           | Inr r1 \<Rightarrow>
               if fantastic (options r1) \<noteq> None \<and> \<not> configured (options r1)
               then configureDamage h r1 else Inr r1))"

definition fromData :: "host \<Rightarrow> string \<Rightarrow> host_error + damage_roll" where
  "fromData h d =
     (case superFromData h d of
        Inl e \<Rightarrow> Inl e
      | Inr roll \<Rightarrow> Inr (roll\<lparr>formula := getFormula h (terms roll)\<rparr>))"

section \<open>toMessage\<close>

text \<open>
  The loop of the static \<open>toMessage\<close> over the rolls, with \<open>messageData.flavor\<close>,
  \<open>rollMode\<close> and \<open>isFantastic\<close> as they stand; a roll not yet evaluated is evaluated by
  the host, in place.
\<close>

fun messageLoop :: "host \<Rightarrow> damage_roll list \<Rightarrow> string option \<Rightarrow> string option \<Rightarrow> bool
    \<Rightarrow> host_error + (damage_roll list \<times> string option \<times> string option \<times> bool)" where
  "messageLoop h [] fl rm isF = Inr ([], fl, rm, isF)"
| "messageLoop h (roll # rolls) fl rm isF =
     (case (if \<not> evaluated roll then evaluateRoll h roll else Inr roll) of
        Inl e \<Rightarrow> Inl e
      | Inr roll1 \<Rightarrow>
          (case messageLoop h rolls
                  (case fl of None \<Rightarrow> flavor (options roll1) | Some x \<Rightarrow> Some x)
                  (rollMode (options roll1))
                  (isF \<or> fantastic (options roll1) = Some True) of
             Inl e \<Rightarrow> Inl e
           | Inr (rs, fl1, rm1, isF1) \<Rightarrow> Inr (roll1 # rs, fl1, rm1, isF1)))"

definition fantasticFlavor :: "host \<Rightarrow> string option \<Rightarrow> string option" where
  "fantasticFlavor h fl =
     (let label = localize h ''MARVEL_MULTIVERSE.fantasticRoll''
      in case fl of
           None \<Rightarrow> Some label
         | Some x \<Rightarrow> if x \<noteq> [] then Some (x @ '' ('' @ label @ '')'') else Some label)"

text \<open>
  The chat data that \<open>toMessage\<close> prepares after the loop: the flavor with the label of
  a fantastic roll, the user and the sound unless the message data give them, the rolls,
  and the message type on a host before generation 12.
\<close>

definition prepareChatData :: "host \<Rightarrow> message_data \<Rightarrow> damage_roll list \<Rightarrow> string option \<Rightarrow> bool
    \<Rightarrow> message_data" where
  "prepareChatData h messageData rolls1 fl isF =
     (let fl1 = (if isF then fantasticFlavor h fl else fl);
          md1 = messageData\<lparr>msgFlavor := fl1,
                  msgUser := (case msgUser messageData of
                                None \<Rightarrow> Some (userId h) | Some u \<Rightarrow> Some u),
                  msgSound := (case msgSound messageData of
                                 None \<Rightarrow> Some (diceSound h) | Some u \<Rightarrow> Some u),
                  msgRolls := rolls1\<rparr>
      in if generation h < 12 then md1\<lparr>msgType := Some (rollType h)\<rparr> else md1)"

definition toMessage :: "host \<Rightarrow> damage_roll list \<Rightarrow> message_data \<Rightarrow> string option \<Rightarrow> bool
    \<Rightarrow> host_error + message_result" where
  "toMessage h rolls messageData rollMode0 create =
     (case messageLoop h rolls (msgFlavor messageData) rollMode0 False of
        Inl e \<Rightarrow> Inl e
      | Inr (rolls1, fl, rm, isF) \<Rightarrow>
          (let rm1 = (case rm of None \<Rightarrow> msgRollMode messageData | Some x \<Rightarrow> Some x)
           in case newMessage h (prepareChatData h messageData rolls1 fl isF) of
                Inl e \<Rightarrow> Inl e
              | Inr msg \<Rightarrow>
                  if create then
                    (case createMessage h (toObject h msg) rm1 of
                       Inl e \<Rightarrow> Inl e
                     | Inr doc \<Rightarrow> Inr (Created doc))
                  else
                    (case rm1 of
                       None \<Rightarrow> Inr (Prepared (toObject h msg))
                     | Some x \<Rightarrow>
                         if x \<noteq> [] then Inr (Prepared (toObject h (applyRollMode h x msg)))
                         else Inr (Prepared (toObject h msg)))))"

section \<open>The weapon schema of src/unnamed/part_000\<close>

datatype field_value = BoolValue bool | NumberValue int | StringValue string

record field_options =
  required :: "bool option"
  nullable :: "bool option"
  integer :: "bool option"
  blank :: "bool option"
  initial :: "field_value option"

text \<open>
  The field classes of \<open>foundry.data.fields\<close> that the weapon schema builds, each with
  the options object it is built from; \<open>OtherField\<close> is any other field class, which the
  schema inherited from \<open>item-base.mjs\<close> (not among the sources) may hold.
\<close>

datatype data_field =
    BooleanField field_options
  | NumberField field_options
  | StringField field_options
  | OtherField string field_options

type_synonym schema = "string \<rightharpoonup> data_field"

definition noFieldOptions :: field_options where
  "noFieldOptions = \<lparr>required = None, nullable = None, integer = None, blank = None,
     initial = None\<rparr>"

definition requiredInteger :: field_options where
  "requiredInteger = noFieldOptions\<lparr>required := Some True, nullable := Some False,
     integer := Some True\<rparr>"

text \<open>\<open>defineSchema\<close>, from the schema that \<open>super.defineSchema()\<close> returns.\<close>

definition defineSchema :: "schema \<Rightarrow> schema" where
  "defineSchema base = base
     (''melee'' \<mapsto> BooleanField (noFieldOptions\<lparr>required := Some True,
                                     initial := Some (BoolValue True)\<rparr>),
      ''range'' \<mapsto> NumberField (requiredInteger\<lparr>initial := Some (NumberValue 0)\<rparr>),
      ''damageMultiplier'' \<mapsto> StringField (noFieldOptions\<lparr>blank := Some True\<rparr>),
      ''rule'' \<mapsto> StringField (noFieldOptions\<lparr>blank := Some True\<rparr>),
      ''recommenedRank'' \<mapsto> StringField (noFieldOptions\<lparr>blank := Some True\<rparr>),
      ''category'' \<mapsto> StringField (noFieldOptions\<lparr>blank := Some True\<rparr>),
      ''size'' \<mapsto> StringField (noFieldOptions\<lparr>blank := Some True\<rparr>),
      ''reach'' \<mapsto> StringField (noFieldOptions\<lparr>blank := Some True\<rparr>),
      ''description'' \<mapsto> StringField (noFieldOptions\<lparr>blank := Some True\<rparr>),
      ''history'' \<mapsto> StringField (noFieldOptions\<lparr>blank := Some True\<rparr>),
      ''commentary'' \<mapsto> StringField (noFieldOptions\<lparr>blank := Some True\<rparr>),
      ''equipped'' \<mapsto> BooleanField (noFieldOptions\<lparr>required := Some True,
                                        initial := Some (BoolValue False)\<rparr>))"

section \<open>A concrete host\<close>

text \<open>
  The theorems below hold for every host. To apply them to concrete rolls, \<open>sampleHost\<close>
  answers as the host's dice engine does on the formulas used there: its constructor
  reads a formula \<open>NdF\<close> with its modifiers as one dice term, digits as one numeric
  term, anything else as one string term, and refuses an unclosed parenthesis; a
  parenthetical term of digits is deterministic and totals to them, and so does
  \<open>floor(2.5)\<close>, to \<open>2\<close>; \<open>alter\<close> multiplies the dice count, then adds; a roll that
  still holds a string term cannot be evaluated, and a message with an empty user id
  is not created; a roll rebuilt from stored data keeps the formula text it was
  stored with.
\<close>

definition noTermOptions :: term_options where
  "noTermOptions = \<lparr>baseNumber = None, termFantastic = None, termFlavor = None\<rparr>"

definition digitValue :: "char \<Rightarrow> int" where
  "digitValue c = int (length (takeWhile (\<lambda>x. x \<noteq> c) ''0123456789''))"

definition readDigits :: "string \<Rightarrow> int" where
  "readDigits ds = foldl (\<lambda>a c. 10 * a + digitValue c) 0 ds"

fun showNat :: "nat \<Rightarrow> string" where
  "showNat n = (if n < 10 then [''0123456789'' ! n]
                else showNat (n div 10) @ [''0123456789'' ! (n mod 10)])"

definition showInt :: "int \<Rightarrow> string" where
  "showInt k = (if k < 0 then CHR ''-'' # showNat (nat (- k)) else showNat (nat k))"

definition sampleParse :: "string \<Rightarrow> host_error + roll_term list" where
  "sampleParse f =
     (if CHR ''('' \<in> set f \<and> CHR '')'' \<notin> set f then Inl (HostError ''Unbalanced parenthesis'')
      else if f = [] then Inr []
      else
        (let a = takeWhile isDigit f; rest = dropWhile isDigit f
         in case rest of
              [] \<Rightarrow> Inr [NumericTerm (readDigits a) noTermOptions]
            | c # rest1 \<Rightarrow>
                (let b = takeWhile isDigit rest1; m = dropWhile isDigit rest1
                 in if c = CHR ''d'' \<and> a \<noteq> [] \<and> b \<noteq> []
                    then Inr [DiceTerm (readDigits a) (readDigits b) m noTermOptions]
                    else Inr [StringTerm f])))"

fun sampleTermFormula :: "roll_term \<Rightarrow> string" where
  "sampleTermFormula (StringTerm s) = s"
| "sampleTermFormula (ParentheticalTerm s) = ''('' @ s @ '')''"
| "sampleTermFormula (FunctionTerm s) = s"
| "sampleTermFormula (DiceTerm n f m topts) = showInt n @ ''d'' @ showInt f @ m"
| "sampleTermFormula (NumericTerm n topts) = showInt n"
| "sampleTermFormula (OperatorTerm s) = '' '' @ s @ '' ''"
| "sampleTermFormula (OtherTerm s) = s"
| "sampleTermFormula UndefinedTerm = ''undefined''"

definition sampleFormula :: "roll_term list \<Rightarrow> string" where
  "sampleFormula ts = concat (map sampleTermFormula ts)"

definition sampleRoll :: "string \<Rightarrow> roll_data \<Rightarrow> roll_options \<Rightarrow> host_error + damage_roll" where
  "sampleRoll f d opts =
     (case sampleParse f of
        Inl e \<Rightarrow> Inl e
      | Inr ts \<Rightarrow>
          Inr \<lparr>terms = ts, formula = sampleFormula ts, options = opts, rollData = d,
               evaluated = False\<rparr>)"

fun sampleDeterministic :: "roll_term \<Rightarrow> bool" where
  "sampleDeterministic (ParentheticalTerm s) = (s \<noteq> [] \<and> list_all isDigit s)"
| "sampleDeterministic (FunctionTerm s) = (s = ''floor(2.5)'')"
| "sampleDeterministic t = False"

fun sampleTotal :: "roll_term \<Rightarrow> host_error + string" where
  "sampleTotal (ParentheticalTerm s) =
     (if s \<noteq> [] \<and> list_all isDigit s then Inr s else Inl (HostError ''Not deterministic''))"
| "sampleTotal (FunctionTerm s) =
     (if s = ''floor(2.5)'' then Inr ''2'' else Inl (HostError ''Not deterministic''))"
| "sampleTotal t = Inl (HostError ''Not deterministic'')"

definition sampleHost :: host where
  "sampleHost = \<lparr>
     newRoll = sampleRoll,
     isDeterministic = sampleDeterministic,
     evaluateTotal = sampleTotal,
     getFormula = sampleFormula,
     alter = (\<lambda>m a n. n * m + a),
     localize = (\<lambda>key. key),
     numericOptions = (\<lambda>fl. noTermOptions),
     evaluateRoll = (\<lambda>r. if list_ex (\<lambda>t. isStringTerm (Some t)) (terms r)
                          then Inl (HostError ''Unresolved StringTerm'')
                          else Inr (r\<lparr>evaluated := True\<rparr>)),
     userId = ''user'',
     diceSound = ''sounds/dice.wav'',
     generation = 12,
     rollType = ''roll'',
     newMessage = (\<lambda>md. Inr (ChatMessage md)),
     toObject = (\<lambda>msg. case msg of ChatMessage md \<Rightarrow> md),
     applyRollMode = (\<lambda>rm msg. case msg of ChatMessage md \<Rightarrow> ChatMessage (md\<lparr>msgRollMode := Some rm\<rparr>)),
     createMessage = (\<lambda>md rm. if msgUser md = Some [] then Inl (HostError ''Validation failed'')
                               else Inr (ChatMessage md)),
     superFromData = (\<lambda>d. case sampleParse d of
                              Inl e \<Rightarrow> Inl e
                            | Inr ts \<Rightarrow> Inr \<lparr>terms = ts, formula = d, options = noOptions,
                                           rollData = [], evaluated = False\<rparr>)\<rparr>"

section \<open>Definitions that state the properties\<close>

text \<open>
  The flat bonus as the description of the house rule words it: over the dice terms of a
  list, the sum of (number of dice \<open>\<times>\<close> faces), the number of dice being the recorded
  base number where there is one.
\<close>

definition diceMaximum :: "roll_term list \<Rightarrow> int" where
  "diceMaximum ts = sum_list (map (\<lambda>t. case t of
       DiceTerm n f m topts \<Rightarrow> (case baseNumber topts of None \<Rightarrow> n | Some b \<Rightarrow> b) * f
     | _ \<Rightarrow> 0) ts)"

text \<open>\<open>t instanceof DiceTerm\<close>, on a value that may be \<open>undefined\<close>.\<close>

fun isDiceTerm :: "roll_term option \<Rightarrow> bool" where
  "isDiceTerm (Some (DiceTerm n f m topts)) = True"
| "isDiceTerm _ = False"

text \<open>A roll of the concrete host with the given terms and options, its formula compiled.\<close>

definition sampleDamage :: "roll_term list \<Rightarrow> roll_options \<Rightarrow> damage_roll" where
  "sampleDamage ts opts = \<lparr>terms = ts, formula = sampleFormula ts, options = opts,
     rollData = [], evaluated = False\<rparr>"

text \<open>
  An exception \<open>e\<close> is raised by the host: some call into the host fails with it.
\<close>

definition hostRaises :: "host \<Rightarrow> host_error \<Rightarrow> bool" where
  "hostRaises h e =
     ((\<exists>f d opts. newRoll h f d opts = Inl e)
      \<or> (\<exists>t. evaluateTotal h t = Inl e)
      \<or> (\<exists>r. evaluateRoll h r = Inl e)
      \<or> (\<exists>md. newMessage h md = Inl e)
      \<or> (\<exists>md rm. createMessage h md rm = Inl e)
      \<or> (\<exists>d. superFromData h d = Inl e))"

text \<open>The \<open>messageData\<close> argument left out: \<open>{}\<close>.\<close>

definition noMessageData :: message_data where
  "noMessageData = \<lparr>msgFlavor = None, msgRollMode = None, msgUser = None, msgSound = None,
     msgRolls = [], msgType = None\<rparr>"

text \<open>
  Three hosts that fail where \<open>sampleHost\<close> does not: one refuses the formula \<open>1d6\<close>,
  one fails every evaluation of a term, one refuses every chat message.
\<close>

definition refusingHost :: host where
  "refusingHost = sampleHost\<lparr>newRoll :=
     (\<lambda>f d opts. if f = ''1d6'' then Inl (HostError ''Refused'') else sampleRoll f d opts)\<rparr>"

definition failingTotalHost :: host where
  "failingTotalHost = sampleHost\<lparr>evaluateTotal := (\<lambda>t. Inl (HostError ''Evaluation failed''))\<rparr>"

definition invalidMessageHost :: host where
  "invalidMessageHost = sampleHost\<lparr>newMessage := (\<lambda>md. Inl (HostError ''Invalid message''))\<rparr>"

text \<open>The last term of a list and the first, \<open>None\<close> when there is none.\<close>

definition lastTerm :: "roll_term list \<Rightarrow> roll_term option" where
  "lastTerm ts = (if ts = [] then None else Some (last ts))"

definition headTerm :: "roll_term list \<Rightarrow> roll_term option" where
  "headTerm ts = (case ts of [] \<Rightarrow> None | t # _ \<Rightarrow> Some t)"

text \<open>
  The rewriting as the description of \<open>preprocessFormula\<close> words it, read from left to
  right, with the terms written so far in \<open>out\<close> and the terms still to read:
  \<^item> a string term matching \<open>^d\d+\<close> that is not preceded by a parenthetical term is
    replaced by the first term parsed from \<open>1\<close> and its text;
  \<^item> a deterministic parenthetical term preceded by a string term matching \<open>^[0-9]*d$\<close>
    is merged with that prefix, and with a string term that follows it, if any, into the
    first term parsed from prefix, total and modifier;
  \<^item> any other deterministic parenthetical or function term followed by a string term
    matching \<open>^d[0-9]*$\<close> is merged with it into the first term parsed from total and
    text (so a shorthand die after such a term is merged, not replaced);
  \<^item> every other term is kept.
  Each term of the list is read or merged; none is passed over.
\<close>

function mergeTerms :: "host \<Rightarrow> roll_term list \<Rightarrow> roll_term list \<Rightarrow> host_error + roll_term list" where
  "mergeTerms h out [] = Inr out"
| "mergeTerms h out (cur # rest) =
     (let prevTerm = lastTerm out; nextTerm = headTerm rest
      in
        if isStringTerm (Some cur) \<and> shorthandDie (termText (Some cur))
           \<and> \<not> isParentheticalTerm prevTerm
        then
          (case firstTerm h (CHR ''1'' # termText (Some cur)) of
             Inl e \<Rightarrow> Inl e
           | Inr newTerm \<Rightarrow> mergeTerms h (out @ [newTerm]) rest)
        else if isParentheticalTerm (Some cur) \<and> isStringTerm prevTerm
                \<and> dicePrefix (termText prevTerm) \<and> isDeterministic h cur
        then
          (case evaluateTotal h cur of
             Inl e \<Rightarrow> Inl e
           | Inr tot \<Rightarrow>
               if isStringTerm nextTerm then
                 (case firstTerm h (termText prevTerm @ tot @ termText nextTerm) of
                    Inl e \<Rightarrow> Inl e
                  | Inr newTerm \<Rightarrow> mergeTerms h (butlast out @ [newTerm]) (tl rest))
               else
                 (case firstTerm h (termText prevTerm @ tot) of
                    Inl e \<Rightarrow> Inl e
                  | Inr newTerm \<Rightarrow> mergeTerms h (butlast out @ [newTerm]) rest))
        else if (isParentheticalTerm (Some cur) \<or> isFunctionTerm (Some cur))
                \<and> \<not> (isParentheticalTerm (Some cur) \<and> isStringTerm prevTerm
                       \<and> dicePrefix (termText prevTerm))
                \<and> isStringTerm nextTerm \<and> diceSuffix (termText nextTerm)
                \<and> isDeterministic h cur
        then
          (case evaluateTotal h cur of
             Inl e \<Rightarrow> Inl e
           | Inr tot \<Rightarrow>
               (case firstTerm h (tot @ termText nextTerm) of
                  Inl e \<Rightarrow> Inl e
                | Inr newTerm \<Rightarrow> mergeTerms h (out @ [newTerm]) (tl rest)))
        else mergeTerms h (out @ [cur]) rest)"
  by pat_completeness auto
termination
  by (relation "measure (\<lambda>(h, out, rest). length rest)") auto

text \<open>
  The term lists on which no merge by the prefix rule can make the loop of the source
  pass over a term that matters: every parenthetical term that directly follows a
  string term is followed, after the string term that directly follows it, if any, by
  the end of the list or by a term that is neither a string, a parenthetical nor a
  function term (an operator, say).
\<close>

fun inertHead :: "roll_term list \<Rightarrow> bool" where
  "inertHead [] = True"
| "inertHead (t # rest) =
     (\<not> isStringTerm (Some t) \<and> \<not> isParentheticalTerm (Some t) \<and> \<not> isFunctionTerm (Some t))"

fun separated :: "roll_term option \<Rightarrow> roll_term list \<Rightarrow> bool" where
  "separated prev [] = True"
| "separated prev (t # rest) =
     ((isParentheticalTerm (Some t) \<and> isStringTerm prev
         \<longrightarrow> inertHead (if isStringTerm (headTerm rest) then tl rest else rest))
      \<and> separated (Some t) rest)"

section \<open>Lemmas on configureDamage\<close>

lemmas sample_defs = sampleHost_def sampleRoll_def sampleParse_def sampleFormula_def
  sampleDamage_def noOptions_def noTermOptions_def isDigit_def readDigits_def digitValue_def
  showInt_def

lemmas damage_defs = configureDamage_def extraDamageTerms_def powerfulBonusTerms_def
  construct_def preprocessFormula_def preprocessStep_def firstTerm_def termAt_def splice_def
  dicePrefix_def Let_def

lemma configureTerm_fst:
  "fst (configureTerm h opts i fb t) = fst (configureTerm h opts i 0 t)"
  by (cases t) (simp_all add: Let_def)

lemma configureTerms_length:
  "length (fst (configureTerms h opts i fb ts)) = length ts"
  by (induction ts arbitrary: i fb) (simp_all add: split_def Let_def)

lemma configureTerms_nth:
  "j < length ts \<Longrightarrow>
   fst (configureTerms h opts i fb ts) ! j = fst (configureTerm h opts (i + j) 0 (ts ! j))"
proof (induction ts arbitrary: i fb j)
  case Nil
  then show ?case by simp
next
  case (Cons t ts)
  show ?case
  proof (cases j)
    case 0
    then show ?thesis
      using configureTerm_fst [of h opts i fb t] by (simp add: split_def Let_def)
  next
    case (Suc k)
    with Cons.prems have "k < length ts" by simp
    from Cons.IH [OF this, of "i + 1" "snd (configureTerm h opts i fb t)"] Suc
    show ?thesis by (simp add: split_def Let_def)
  qed
qed

lemma configureTerm_snd:
  "snd (configureTerm h opts i fb t) =
     fb + (if fantastic opts = Some True \<and> powerfulfantastic opts then diceMaximum [t] else 0)"
  by (cases t) (simp_all add: Let_def diceMaximum_def)

lemma diceMaximum_Cons: "diceMaximum (t # ts) = diceMaximum [t] + diceMaximum ts"
  by (simp add: diceMaximum_def)

lemma configureTerms_snd:
  "snd (configureTerms h opts i fb ts) =
     fb + (if fantastic opts = Some True \<and> powerfulfantastic opts then diceMaximum ts else 0)"
proof (induction ts arbitrary: i fb)
  case Nil
  then show ?case by (simp add: diceMaximum_def)
next
  case (Cons t ts)
  show ?case
    using Cons.IH [of "i + 1" "snd (configureTerm h opts i fb t)"]
      configureTerm_snd [of h opts i fb t] diceMaximum_Cons [of t ts]
    by (simp add: split_def Let_def)
qed

lemma configureDamage_terms:
  assumes "configureDamage h r = Inr r'"
  shows "\<exists>extra. extraDamageTerms h r = Inr extra \<and>
           terms r' = fst (configureTerms h (options r) 0 0 (terms r))
             @ powerfulBonusTerms h (options r) (snd (configureTerms h (options r) 0 0 (terms r)))
             @ extra"
  using assms by (auto simp: configureDamage_def split_def Let_def split: sum.splits)

lemma configureDamage_nth:
  assumes "configureDamage h r = Inr r'" and "i < length (terms r)"
  shows "terms r' ! i = fst (configureTerm h (options r) i 0 (terms r ! i))"
proof -
  from configureDamage_terms [OF assms(1)] obtain extra where
    t: "terms r' = fst (configureTerms h (options r) 0 0 (terms r))
             @ powerfulBonusTerms h (options r) (snd (configureTerms h (options r) 0 0 (terms r)))
             @ extra" by blast
  have "terms r' ! i = fst (configureTerms h (options r) 0 0 (terms r)) ! i"
    using assms(2) by (simp add: t nth_append configureTerms_length)
  also have "\<dots> = fst (configureTerm h (options r) i 0 (terms r ! i))"
    using configureTerms_nth [OF assms(2), of h "options r" 0 0] by simp
  finally show ?thesis .
qed

lemma configureDamage_options:
  "configureDamage h r = Inr r' \<Longrightarrow> options r' = (options r)\<lparr>configured := True\<rparr>"
  by (auto simp: configureDamage_def split_def Let_def split: sum.splits)

lemma configureTerm_configured:
  "configureTerm h (opts\<lparr>configured := c\<rparr>) i fb t = configureTerm h opts i fb t"
  by (cases t) (simp_all add: Let_def)

lemma configureTerm_again:
  "fst (configureTerm h opts i 0 (fst (configureTerm h opts i 0 t))) = fst (configureTerm h opts i 0 t)"
  by (cases t) (simp_all add: Let_def)

lemma configureDamage_length:
  "configureDamage h r = Inr r' \<Longrightarrow> length (terms r) \<le> length (terms r')"
  using configureDamage_terms [of h r r'] by (auto simp: configureTerms_length)

lemma configureTerm_bonus:
  assumes "0 < i \<or> \<not> isDiceTerm (Some t)"
  shows "configureTerm h (opts\<lparr>fantasticBonusDice := b\<rparr>) i fb t =
         configureTerm h (opts\<lparr>fantasticBonusDice := None\<rparr>) i fb t"
proof (cases t)
  case (DiceTerm n f m topts)
  with assms have "0 < i" by simp
  then show ?thesis
    by (cases b) (simp_all add: DiceTerm Let_def)
qed (simp_all add: Let_def)

lemma configureTerms_bonus_later:
  "0 < i \<Longrightarrow>
   configureTerms h (opts\<lparr>fantasticBonusDice := b\<rparr>) i fb ts =
   configureTerms h (opts\<lparr>fantasticBonusDice := None\<rparr>) i fb ts"
proof (induction ts arbitrary: i fb)
  case Nil
  then show ?case by simp
next
  case (Cons t ts)
  have "configureTerm h (opts\<lparr>fantasticBonusDice := b\<rparr>) i fb t =
        configureTerm h (opts\<lparr>fantasticBonusDice := None\<rparr>) i fb t"
    by (rule configureTerm_bonus) (simp add: Cons.prems)
  then show ?case
    using Cons.IH [of "i + 1"] by simp
qed

lemma configureTerms_bonus:
  assumes "\<not> isDiceTerm (termAt ts 0)"
  shows "configureTerms h (opts\<lparr>fantasticBonusDice := b\<rparr>) 0 fb ts =
         configureTerms h (opts\<lparr>fantasticBonusDice := None\<rparr>) 0 fb ts"
proof (cases ts)
  case Nil
  then show ?thesis by simp
next
  case (Cons t rest)
  with assms have "\<not> isDiceTerm (Some t)" by (simp add: termAt_def)
  then have "configureTerm h (opts\<lparr>fantasticBonusDice := b\<rparr>) 0 fb t =
             configureTerm h (opts\<lparr>fantasticBonusDice := None\<rparr>) 0 fb t"
    by (intro configureTerm_bonus disjI2)
  moreover have "\<And>fb1. configureTerms h (opts\<lparr>fantasticBonusDice := b\<rparr>) (Suc 0) fb1 rest =
             configureTerms h (opts\<lparr>fantasticBonusDice := None\<rparr>) (Suc 0) fb1 rest"
    by (rule configureTerms_bonus_later) simp
  ultimately show ?thesis
    by (simp add: Cons)
qed

lemma extraDamageTerms_bonus:
  "extraDamageTerms h (r\<lparr>options := (options r)\<lparr>fantasticBonusDice := b\<rparr>\<rparr>) = extraDamageTerms h r"
  by (cases "fantasticBonusDamage (options r)") (simp_all add: extraDamageTerms_def)

lemma powerfulBonusTerms_bonus:
  "powerfulBonusTerms h (opts\<lparr>fantasticBonusDice := b\<rparr>) fb = powerfulBonusTerms h opts fb"
  by (simp add: powerfulBonusTerms_def)

lemma configureDamage_terms_eq:
  "map_sum id terms (configureDamage h r) =
     (case extraDamageTerms h r of
        Inl e \<Rightarrow> Inl e
      | Inr extra \<Rightarrow>
          Inr (fst (configureTerms h (options r) 0 0 (terms r))
               @ powerfulBonusTerms h (options r) (snd (configureTerms h (options r) 0 0 (terms r)))
               @ extra))"
  by (cases "extraDamageTerms h r") (simp_all add: configureDamage_def split_def Let_def)

section \<open>Fantastic hits double the damage dice (C1)\<close>

text \<open>
  C1, as stated: a roll constructed with \<open>options.fantastic = true\<close> and neither
  \<open>fantasticMultiplier\<close> nor \<open>powerfulfantastic\<close> has the number of dice of every dice
  term multiplied by 2. It fails when \<open>options.fantasticBonusDice\<close> is given: the roll
  \<open>2d6\<close> built with one bonus die has 5 dice, not 4.
\<close>

theorem fantastic_doubles_dice_counterexample:
  "map_sum id terms (newRoll sampleHost ''2d6'' []
       (noOptions\<lparr>fantastic := Some True, fantasticBonusDice := Some 1\<rparr>))
     = Inr [DiceTerm 2 6 [] noTermOptions]
   \<and> map_sum id terms (construct sampleHost ''2d6'' []
       (noOptions\<lparr>fantastic := Some True, fantasticBonusDice := Some 1\<rparr>))
     = Inr [DiceTerm 5 6 [] (noTermOptions\<lparr>baseNumber := Some 2, termFantastic := Some True\<rparr>)]"
  by (simp add: sample_defs damage_defs)

text \<open>
  C1, amended: with \<open>options.fantastic = true\<close> and neither \<open>fantasticMultiplier\<close> nor
  \<open>powerfulfantastic\<close>, on a host whose \<open>alter(2, a)\<close> doubles the dice count and adds
  \<open>a\<close>, \<open>configureDamage\<close> leaves in every dice term of the term list twice its base
  number of dice (\<open>options.baseNumber\<close> where the term records one, else its number),
  plus \<open>options.fantasticBonusDice\<close> in the term at index 0; it records the base
  number in the term and marks it \<open>options.fantastic = true\<close>.
\<close>

theorem fantastic_doubles_dice:
  assumes "configureDamage h r = Inr r'"
    and "fantastic (options r) = Some True"
    and "fantasticMultiplier (options r) = None"
    and "\<not> powerfulfantastic (options r)"
    and "i < length (terms r)"
    and "terms r ! i = DiceTerm n f m topts"
    and "\<And>a k. alter h 2 a k = 2 * k + a"
  shows "terms r' ! i =
     DiceTerm (2 * (case baseNumber topts of None \<Rightarrow> n | Some b \<Rightarrow> b)
                 + (if i = 0 then (case fantasticBonusDice (options r) of None \<Rightarrow> 0 | Some b \<Rightarrow> b)
                    else 0))
       f m
       (topts\<lparr>baseNumber := Some (case baseNumber topts of None \<Rightarrow> n | Some b \<Rightarrow> b),
              termFantastic := Some True\<rparr>)"
  using configureDamage_nth [OF assms(1) assms(5)] assms(2-4,6,7)
  by (simp add: Let_def split: option.splits)

theorem fantastic_doubles_dice_witness:
  "configureDamage sampleHost
      (sampleDamage [DiceTerm 2 6 [] noTermOptions, OperatorTerm ''+'', DiceTerm 1 8 [] noTermOptions]
         (noOptions\<lparr>fantastic := Some True, fantasticBonusDice := Some 1\<rparr>))
    = Inr (sampleDamage
         [DiceTerm 5 6 [] (noTermOptions\<lparr>baseNumber := Some 2, termFantastic := Some True\<rparr>),
          OperatorTerm ''+'',
          DiceTerm 2 8 [] (noTermOptions\<lparr>baseNumber := Some 1, termFantastic := Some True\<rparr>)]
         (noOptions\<lparr>fantastic := Some True, fantasticBonusDice := Some 1, configured := True\<rparr>))
   \<and> terms (sampleDamage
         [DiceTerm 5 6 [] (noTermOptions\<lparr>baseNumber := Some 2, termFantastic := Some True\<rparr>),
          OperatorTerm ''+'',
          DiceTerm 2 8 [] (noTermOptions\<lparr>baseNumber := Some 1, termFantastic := Some True\<rparr>)]
         (noOptions\<lparr>fantastic := Some True, fantasticBonusDice := Some 1, configured := True\<rparr>)) ! 2
     = DiceTerm 2 8 [] (noTermOptions\<lparr>baseNumber := Some 1, termFantastic := Some True\<rparr>)"
proof -
  let ?r = "sampleDamage [DiceTerm 2 6 [] noTermOptions, OperatorTerm ''+'', DiceTerm 1 8 [] noTermOptions]
         (noOptions\<lparr>fantastic := Some True, fantasticBonusDice := Some 1\<rparr>)"
  let ?r' = "sampleDamage
         [DiceTerm 5 6 [] (noTermOptions\<lparr>baseNumber := Some 2, termFantastic := Some True\<rparr>),
          OperatorTerm ''+'',
          DiceTerm 2 8 [] (noTermOptions\<lparr>baseNumber := Some 1, termFantastic := Some True\<rparr>)]
         (noOptions\<lparr>fantastic := Some True, fantasticBonusDice := Some 1, configured := True\<rparr>)"
  have c: "configureDamage sampleHost ?r = Inr ?r'"
    by (simp add: sample_defs damage_defs)
  have f: "fantastic (options ?r) = Some True" "fantasticMultiplier (options ?r) = None"
    "\<not> powerfulfantastic (options ?r)" "2 < length (terms ?r)"
    "terms ?r ! 2 = DiceTerm 1 8 [] noTermOptions"
    by (simp_all add: sample_defs)
  have a: "\<And>a k. alter sampleHost 2 a k = 2 * k + a"
    by (simp add: sampleHost_def)
  from fantastic_doubles_dice [OF c f a] c show ?thesis
    by (simp add: sample_defs)
qed

section \<open>Numeric terms on a fantastic hit (C3)\<close>

text \<open>
  C3, as stated: with \<open>options.fantastic = true\<close>, every numeric term is multiplied by
  the fantastic multiplier. It fails unless \<open>options.multiplyNumeric\<close> is set, which the
  source tests before it touches a numeric term: the roll \<open>3\<close> stays \<open>3\<close>.
\<close>

theorem fantastic_numeric_counterexample:
  "map_sum id terms (construct sampleHost ''3'' [] (noOptions\<lparr>fantastic := Some True\<rparr>))
     = Inr [NumericTerm 3 noTermOptions]"
  by (simp add: sample_defs damage_defs)

text \<open>
  C3, amended: for every numeric term of the term list, \<open>configureDamage\<close>
  \<^item> with \<open>options.fantastic = true\<close> and \<open>options.multiplyNumeric\<close> set, leaves in it its
    base number (\<open>options.baseNumber\<close> where the term records one, else its number)
    times \<open>options.fantasticMultiplier\<close>, 2 by default, records the base number in the
    term and marks it \<open>options.fantastic = true\<close>;
  \<^item> with \<open>options.multiplyNumeric\<close> set and no fantastic hit, restores and records its
    base number;
  \<^item> without \<open>options.multiplyNumeric\<close>, leaves the term unchanged.
\<close>

theorem fantastic_numeric:
  assumes "configureDamage h r = Inr r'"
    and "i < length (terms r)"
    and "terms r ! i = NumericTerm n topts"
  shows "(fantastic (options r) = Some True \<and> multiplyNumeric (options r) \<longrightarrow>
          terms r' ! i =
            NumericTerm ((case baseNumber topts of None \<Rightarrow> n | Some b \<Rightarrow> b)
                           * (case fantasticMultiplier (options r) of None \<Rightarrow> 2 | Some c \<Rightarrow> c))
              (topts\<lparr>baseNumber := Some (case baseNumber topts of None \<Rightarrow> n | Some b \<Rightarrow> b),
                     termFantastic := Some True\<rparr>))
       \<and> (fantastic (options r) \<noteq> Some True \<and> multiplyNumeric (options r) \<longrightarrow>
          terms r' ! i =
            NumericTerm (case baseNumber topts of None \<Rightarrow> n | Some b \<Rightarrow> b)
              (topts\<lparr>baseNumber := Some (case baseNumber topts of None \<Rightarrow> n | Some b \<Rightarrow> b)\<rparr>))
       \<and> (\<not> multiplyNumeric (options r) \<longrightarrow> terms r' ! i = NumericTerm n topts)"
  using configureDamage_nth [OF assms(1) assms(2)] assms(3)
  by (simp add: Let_def)

theorem fantastic_numeric_witness:
  "configureDamage sampleHost
      (sampleDamage [DiceTerm 2 6 [] noTermOptions, OperatorTerm ''+'', NumericTerm 3 noTermOptions]
         (noOptions\<lparr>fantastic := Some True, multiplyNumeric := True\<rparr>))
    = Inr (sampleDamage
         [DiceTerm 4 6 [] (noTermOptions\<lparr>baseNumber := Some 2, termFantastic := Some True\<rparr>),
          OperatorTerm ''+'',
          NumericTerm 6 (noTermOptions\<lparr>baseNumber := Some 3, termFantastic := Some True\<rparr>)]
         (noOptions\<lparr>fantastic := Some True, multiplyNumeric := True, configured := True\<rparr>))
   \<and> configureDamage sampleHost
      (sampleDamage [DiceTerm 2 6 [] noTermOptions, OperatorTerm ''+'', NumericTerm 3 noTermOptions]
         (noOptions\<lparr>fantastic := Some False, multiplyNumeric := True\<rparr>))
    = Inr (sampleDamage
         [DiceTerm 2 6 [] (noTermOptions\<lparr>baseNumber := Some 2\<rparr>),
          OperatorTerm ''+'',
          NumericTerm 3 (noTermOptions\<lparr>baseNumber := Some 3\<rparr>)]
         (noOptions\<lparr>fantastic := Some False, multiplyNumeric := True, configured := True\<rparr>))
   \<and> configureDamage sampleHost
      (sampleDamage [DiceTerm 2 6 [] noTermOptions, OperatorTerm ''+'', NumericTerm 3 noTermOptions]
         (noOptions\<lparr>fantastic := Some True\<rparr>))
    = Inr (sampleDamage
         [DiceTerm 4 6 [] (noTermOptions\<lparr>baseNumber := Some 2, termFantastic := Some True\<rparr>),
          OperatorTerm ''+'',
          NumericTerm 3 noTermOptions]
         (noOptions\<lparr>fantastic := Some True, configured := True\<rparr>))"
proof -
  let ?ts = "[DiceTerm 2 6 [] noTermOptions, OperatorTerm ''+'', NumericTerm 3 noTermOptions]"
  let ?a = "sampleDamage ?ts (noOptions\<lparr>fantastic := Some True, multiplyNumeric := True\<rparr>)"
  let ?a' = "sampleDamage
         [DiceTerm 4 6 [] (noTermOptions\<lparr>baseNumber := Some 2, termFantastic := Some True\<rparr>),
          OperatorTerm ''+'',
          NumericTerm 6 (noTermOptions\<lparr>baseNumber := Some 3, termFantastic := Some True\<rparr>)]
         (noOptions\<lparr>fantastic := Some True, multiplyNumeric := True, configured := True\<rparr>)"
  let ?b = "sampleDamage ?ts (noOptions\<lparr>fantastic := Some False, multiplyNumeric := True\<rparr>)"
  let ?b' = "sampleDamage
         [DiceTerm 2 6 [] (noTermOptions\<lparr>baseNumber := Some 2\<rparr>),
          OperatorTerm ''+'',
          NumericTerm 3 (noTermOptions\<lparr>baseNumber := Some 3\<rparr>)]
         (noOptions\<lparr>fantastic := Some False, multiplyNumeric := True, configured := True\<rparr>)"
  let ?c = "sampleDamage ?ts (noOptions\<lparr>fantastic := Some True\<rparr>)"
  let ?c' = "sampleDamage
         [DiceTerm 4 6 [] (noTermOptions\<lparr>baseNumber := Some 2, termFantastic := Some True\<rparr>),
          OperatorTerm ''+'',
          NumericTerm 3 noTermOptions]
         (noOptions\<lparr>fantastic := Some True, configured := True\<rparr>)"
  have a: "configureDamage sampleHost ?a = Inr ?a'"
    and b: "configureDamage sampleHost ?b = Inr ?b'"
    and c: "configureDamage sampleHost ?c = Inr ?c'"
    by (simp_all add: sample_defs damage_defs)
  have l: "2 < length (terms ?a)" "2 < length (terms ?b)" "2 < length (terms ?c)"
    by (simp_all add: sample_defs)
  have t: "terms ?a ! 2 = NumericTerm 3 noTermOptions" "terms ?b ! 2 = NumericTerm 3 noTermOptions"
    "terms ?c ! 2 = NumericTerm 3 noTermOptions"
    by (simp_all add: sample_defs)
  have "terms ?a' ! 2
      = NumericTerm 6 (noTermOptions\<lparr>baseNumber := Some 3, termFantastic := Some True\<rparr>)"
    using fantastic_numeric [OF a l(1) t(1)] by (simp add: sample_defs)
  moreover have "terms ?b' ! 2 = NumericTerm 3 (noTermOptions\<lparr>baseNumber := Some 3\<rparr>)"
    using fantastic_numeric [OF b l(2) t(2)] by (simp add: sample_defs)
  moreover have "terms ?c' ! 2 = NumericTerm 3 noTermOptions"
    using fantastic_numeric [OF c l(3) t(3)] by (simp add: sample_defs)
  ultimately show ?thesis
    using a b c by simp
qed

section \<open>The powerful fantastic house rule (C4)\<close>

text \<open>
  C4: with \<open>options.powerfulfantastic\<close> on a fantastic hit, \<open>configureDamage\<close> alters
  every dice term with the multiplier reduced by 1, but not below 1, and the flat bonus
  is the sum over the dice terms of (number of dice \<open>\<times>\<close> faces); when that bonus is
  positive, the terms pushed after those the list had are an operator \<open>+\<close> and a numeric
  term equal to the bonus, followed only by the terms of \<open>options.fantasticBonusDamage\<close>,
  if any.
\<close>

theorem powerful_fantastic:
  assumes "configureDamage h r = Inr r'"
    and "fantastic (options r) = Some True"
    and "powerfulfantastic (options r)"
  shows "(\<forall>i n f m topts. i < length (terms r) \<and> terms r ! i = DiceTerm n f m topts \<longrightarrow>
            terms r' ! i =
              DiceTerm (alter h (max 1 ((case fantasticMultiplier (options r) of None \<Rightarrow> 2 | Some c \<Rightarrow> c) - 1))
                          (case fantasticBonusDice (options r) of None \<Rightarrow> 0
                           | Some b \<Rightarrow> if b \<noteq> 0 \<and> i = 0 then b else 0)
                          (case baseNumber topts of None \<Rightarrow> n | Some b \<Rightarrow> b))
                f m
                (topts\<lparr>baseNumber := Some (case baseNumber topts of None \<Rightarrow> n | Some b \<Rightarrow> b),
                       termFantastic := Some True\<rparr>))
       \<and> (\<exists>extra. extraDamageTerms h r = Inr extra \<and>
            drop (length (terms r)) (terms r') =
              (if diceMaximum (terms r) > 0
               then [OperatorTerm ''+'',
                     NumericTerm (diceMaximum (terms r))
                       (numericOptions h (localize h ''MARVEL_MULTIVERSE.Powerfulfantastic''))]
               else []) @ extra)"
proof (intro conjI allI impI)
  fix i n f m topts
  assume a: "i < length (terms r) \<and> terms r ! i = DiceTerm n f m topts"
  then show "terms r' ! i =
              DiceTerm (alter h (max 1 ((case fantasticMultiplier (options r) of None \<Rightarrow> 2 | Some c \<Rightarrow> c) - 1))
                          (case fantasticBonusDice (options r) of None \<Rightarrow> 0
                           | Some b \<Rightarrow> if b \<noteq> 0 \<and> i = 0 then b else 0)
                          (case baseNumber topts of None \<Rightarrow> n | Some b \<Rightarrow> b))
                f m
                (topts\<lparr>baseNumber := Some (case baseNumber topts of None \<Rightarrow> n | Some b \<Rightarrow> b),
                       termFantastic := Some True\<rparr>)"
    using configureDamage_nth [OF assms(1), of i] assms(2,3)
    by (simp add: Let_def)
next
  from configureDamage_terms [OF assms(1)] obtain extra where
    e: "extraDamageTerms h r = Inr extra" and
    t: "terms r' = fst (configureTerms h (options r) 0 0 (terms r))
             @ powerfulBonusTerms h (options r) (snd (configureTerms h (options r) 0 0 (terms r)))
             @ extra" by blast
  have "drop (length (terms r)) (terms r') =
      powerfulBonusTerms h (options r) (snd (configureTerms h (options r) 0 0 (terms r))) @ extra"
    by (simp add: t configureTerms_length)
  then have "drop (length (terms r)) (terms r') =
              (if diceMaximum (terms r) > 0
               then [OperatorTerm ''+'',
                     NumericTerm (diceMaximum (terms r))
                       (numericOptions h (localize h ''MARVEL_MULTIVERSE.Powerfulfantastic''))]
               else []) @ extra"
    using assms(2,3) by (simp add: powerfulBonusTerms_def configureTerms_snd)
  with e show "\<exists>extra. extraDamageTerms h r = Inr extra \<and>
            drop (length (terms r)) (terms r') =
              (if diceMaximum (terms r) > 0
               then [OperatorTerm ''+'',
                     NumericTerm (diceMaximum (terms r))
                       (numericOptions h (localize h ''MARVEL_MULTIVERSE.Powerfulfantastic''))]
               else []) @ extra" by blast
qed

theorem powerful_fantastic_witness:
  "configureDamage sampleHost
      (sampleDamage [DiceTerm 2 6 [] noTermOptions, OperatorTerm ''+'', DiceTerm 1 8 [] noTermOptions]
         (noOptions\<lparr>fantastic := Some True, powerfulfantastic := True\<rparr>))
    = Inr (sampleDamage
         [DiceTerm 2 6 [] (noTermOptions\<lparr>baseNumber := Some 2, termFantastic := Some True\<rparr>),
          OperatorTerm ''+'',
          DiceTerm 1 8 [] (noTermOptions\<lparr>baseNumber := Some 1, termFantastic := Some True\<rparr>),
          OperatorTerm ''+'',
          NumericTerm 20 noTermOptions]
         (noOptions\<lparr>fantastic := Some True, powerfulfantastic := True, configured := True\<rparr>))
   \<and> diceMaximum [DiceTerm 2 6 [] noTermOptions, OperatorTerm ''+'', DiceTerm 1 8 [] noTermOptions] = 20
   \<and> drop 3 (terms (sampleDamage
         [DiceTerm 2 6 [] (noTermOptions\<lparr>baseNumber := Some 2, termFantastic := Some True\<rparr>),
          OperatorTerm ''+'',
          DiceTerm 1 8 [] (noTermOptions\<lparr>baseNumber := Some 1, termFantastic := Some True\<rparr>),
          OperatorTerm ''+'',
          NumericTerm 20 noTermOptions]
         (noOptions\<lparr>fantastic := Some True, powerfulfantastic := True, configured := True\<rparr>)))
     = [OperatorTerm ''+'', NumericTerm 20 noTermOptions]"
proof -
  let ?r = "sampleDamage [DiceTerm 2 6 [] noTermOptions, OperatorTerm ''+'', DiceTerm 1 8 [] noTermOptions]
         (noOptions\<lparr>fantastic := Some True, powerfulfantastic := True\<rparr>)"
  let ?r' = "sampleDamage
         [DiceTerm 2 6 [] (noTermOptions\<lparr>baseNumber := Some 2, termFantastic := Some True\<rparr>),
          OperatorTerm ''+'',
          DiceTerm 1 8 [] (noTermOptions\<lparr>baseNumber := Some 1, termFantastic := Some True\<rparr>),
          OperatorTerm ''+'',
          NumericTerm 20 noTermOptions]
         (noOptions\<lparr>fantastic := Some True, powerfulfantastic := True, configured := True\<rparr>)"
  have c: "configureDamage sampleHost ?r = Inr ?r'"
    by (simp add: sample_defs damage_defs)
  have f: "fantastic (options ?r) = Some True" "powerfulfantastic (options ?r)"
    by (simp_all add: sample_defs)
  have d: "diceMaximum [DiceTerm 2 6 [] noTermOptions, OperatorTerm ''+'', DiceTerm 1 8 [] noTermOptions] = 20"
    by (simp add: diceMaximum_def noTermOptions_def)
  from powerful_fantastic [OF c f] c d show ?thesis
    by (simp add: sample_defs)
qed

section \<open>Configuring twice (C8)\<close>

text \<open>
  C8: after two calls of \<open>configureDamage\<close> with the same options, every dice or
  numeric term should have the number that one call gives it. The source restores the
  number of a term from its recorded base number, but the terms that the first call
  itself appends are terms of the list at the second call: built from \<open>2d6\<close> with
  \<open>powerfulfantastic\<close> and \<open>multiplyNumeric\<close>, the list is \<open>2d6 + 12\<close> after one call and
  \<open>2d6 + 24 + 12\<close> after two, the bonus term 12 of the first call doubled to 24.
\<close>

theorem configure_twice_rescales_appended_term:
  "configureDamage sampleHost
      (sampleDamage [DiceTerm 2 6 [] noTermOptions]
         (noOptions\<lparr>fantastic := Some True, powerfulfantastic := True, multiplyNumeric := True\<rparr>))
    = Inr (sampleDamage
         [DiceTerm 2 6 [] (noTermOptions\<lparr>baseNumber := Some 2, termFantastic := Some True\<rparr>),
          OperatorTerm ''+'',
          NumericTerm 12 noTermOptions]
         (noOptions\<lparr>fantastic := Some True, powerfulfantastic := True, multiplyNumeric := True,
            configured := True\<rparr>))
   \<and> configureDamage sampleHost
      (sampleDamage
         [DiceTerm 2 6 [] (noTermOptions\<lparr>baseNumber := Some 2, termFantastic := Some True\<rparr>),
          OperatorTerm ''+'',
          NumericTerm 12 noTermOptions]
         (noOptions\<lparr>fantastic := Some True, powerfulfantastic := True, multiplyNumeric := True,
            configured := True\<rparr>))
    = Inr (sampleDamage
         [DiceTerm 2 6 [] (noTermOptions\<lparr>baseNumber := Some 2, termFantastic := Some True\<rparr>),
          OperatorTerm ''+'',
          NumericTerm 24 (noTermOptions\<lparr>baseNumber := Some 12, termFantastic := Some True\<rparr>),
          OperatorTerm ''+'',
          NumericTerm 12 noTermOptions]
         (noOptions\<lparr>fantastic := Some True, powerfulfantastic := True, multiplyNumeric := True,
            configured := True\<rparr>))"
  by (simp add: sample_defs damage_defs)

text \<open>
  For the terms that are in the list before the first call the restoring works: two
  calls of \<open>configureDamage\<close> (the second on the roll as the first leaves it, whose
  options differ only in \<open>configured\<close>) leave each of them as one call does.
\<close>

lemma configure_twice:
  assumes "configureDamage h r = Inr r1"
    and "configureDamage h r1 = Inr r2"
    and "i < length (terms r)"
  shows "terms r2 ! i = terms r1 ! i"
proof -
  have one: "terms r1 ! i = fst (configureTerm h (options r) i 0 (terms r ! i))"
    by (rule configureDamage_nth [OF assms(1) assms(3)])
  have "i < length (terms r1)"
    using configureDamage_length [OF assms(1)] assms(3) by simp
  then have "terms r2 ! i = fst (configureTerm h (options r1) i 0 (terms r1 ! i))"
    by (rule configureDamage_nth [OF assms(2)])
  also have "\<dots> = fst (configureTerm h (options r) i 0 (terms r1 ! i))"
    by (simp add: configureDamage_options [OF assms(1)] configureTerm_configured)
  also have "\<dots> = terms r1 ! i"
    by (simp add: one configureTerm_again)
  finally show ?thesis .
qed

lemma configure_twice_example:
  "configureDamage sampleHost
      (sampleDamage [DiceTerm 2 6 [] noTermOptions, OperatorTerm ''+'', NumericTerm 3 noTermOptions]
         (noOptions\<lparr>fantastic := Some True, multiplyNumeric := True\<rparr>))
    = Inr (sampleDamage
         [DiceTerm 4 6 [] (noTermOptions\<lparr>baseNumber := Some 2, termFantastic := Some True\<rparr>),
          OperatorTerm ''+'',
          NumericTerm 6 (noTermOptions\<lparr>baseNumber := Some 3, termFantastic := Some True\<rparr>)]
         (noOptions\<lparr>fantastic := Some True, multiplyNumeric := True, configured := True\<rparr>))
   \<and> configureDamage sampleHost
      (sampleDamage
         [DiceTerm 4 6 [] (noTermOptions\<lparr>baseNumber := Some 2, termFantastic := Some True\<rparr>),
          OperatorTerm ''+'',
          NumericTerm 6 (noTermOptions\<lparr>baseNumber := Some 3, termFantastic := Some True\<rparr>)]
         (noOptions\<lparr>fantastic := Some True, multiplyNumeric := True, configured := True\<rparr>))
    = Inr (sampleDamage
         [DiceTerm 4 6 [] (noTermOptions\<lparr>baseNumber := Some 2, termFantastic := Some True\<rparr>),
          OperatorTerm ''+'',
          NumericTerm 6 (noTermOptions\<lparr>baseNumber := Some 3, termFantastic := Some True\<rparr>)]
         (noOptions\<lparr>fantastic := Some True, multiplyNumeric := True, configured := True\<rparr>))"
proof -
  let ?r = "sampleDamage [DiceTerm 2 6 [] noTermOptions, OperatorTerm ''+'', NumericTerm 3 noTermOptions]
         (noOptions\<lparr>fantastic := Some True, multiplyNumeric := True\<rparr>)"
  let ?r1 = "sampleDamage
         [DiceTerm 4 6 [] (noTermOptions\<lparr>baseNumber := Some 2, termFantastic := Some True\<rparr>),
          OperatorTerm ''+'',
          NumericTerm 6 (noTermOptions\<lparr>baseNumber := Some 3, termFantastic := Some True\<rparr>)]
         (noOptions\<lparr>fantastic := Some True, multiplyNumeric := True, configured := True\<rparr>)"
  have c1: "configureDamage sampleHost ?r = Inr ?r1"
    by (simp add: sample_defs damage_defs)
  have c2: "configureDamage sampleHost ?r1 = Inr ?r1"
    by (simp add: sample_defs damage_defs)
  have l: "2 < length (terms ?r)"
    by (simp add: sample_defs)
  from configure_twice [OF c1 c2 l] c1 c2 show ?thesis
    by simp
qed

section \<open>Bonus dice go to the first term only (C10)\<close>

text \<open>
  C10: on a fantastic hit, \<open>configureDamage\<close> alters every dice term at an index other
  than 0 with 0 dice to add; and when the first term of the list is not a dice term, the
  term list it leaves is the one it leaves without \<open>options.fantasticBonusDice\<close>.
\<close>

theorem bonus_dice_first_term_only:
  "(configureDamage h r = Inr r' \<and> fantastic (options r) = Some True \<and> 0 < i
      \<and> i < length (terms r) \<and> terms r ! i = DiceTerm n f m topts \<longrightarrow>
    terms r' ! i =
      DiceTerm (alter h (if powerfulfantastic (options r)
                         then max 1 ((case fantasticMultiplier (options r) of None \<Rightarrow> 2 | Some c \<Rightarrow> c) - 1)
                         else (case fantasticMultiplier (options r) of None \<Rightarrow> 2 | Some c \<Rightarrow> c))
                  0 (case baseNumber topts of None \<Rightarrow> n | Some b \<Rightarrow> b))
        f m
        (topts\<lparr>baseNumber := Some (case baseNumber topts of None \<Rightarrow> n | Some b \<Rightarrow> b),
               termFantastic := Some True\<rparr>))
   \<and> (\<not> isDiceTerm (termAt (terms r) 0) \<longrightarrow>
        map_sum id terms (configureDamage h (r\<lparr>options := (options r)\<lparr>fantasticBonusDice := b\<rparr>\<rparr>)) =
        map_sum id terms (configureDamage h (r\<lparr>options := (options r)\<lparr>fantasticBonusDice := None\<rparr>\<rparr>)))"
proof (intro conjI impI)
  assume a: "configureDamage h r = Inr r' \<and> fantastic (options r) = Some True \<and> 0 < i
      \<and> i < length (terms r) \<and> terms r ! i = DiceTerm n f m topts"
  then have c: "configureDamage h r = Inr r'" and l: "i < length (terms r)" by simp_all
  have "terms r' ! i = fst (configureTerm h (options r) i 0 (terms r ! i))"
    by (rule configureDamage_nth [OF c l])
  with a show "terms r' ! i =
      DiceTerm (alter h (if powerfulfantastic (options r)
                         then max 1 ((case fantasticMultiplier (options r) of None \<Rightarrow> 2 | Some c \<Rightarrow> c) - 1)
                         else (case fantasticMultiplier (options r) of None \<Rightarrow> 2 | Some c \<Rightarrow> c))
                  0 (case baseNumber topts of None \<Rightarrow> n | Some b \<Rightarrow> b))
        f m
        (topts\<lparr>baseNumber := Some (case baseNumber topts of None \<Rightarrow> n | Some b \<Rightarrow> b),
               termFantastic := Some True\<rparr>)"
    by (cases "fantasticBonusDice (options r)") (simp_all add: Let_def)
next
  assume "\<not> isDiceTerm (termAt (terms r) 0)"
  then have "\<And>fb. configureTerms h ((options r)\<lparr>fantasticBonusDice := b\<rparr>) 0 fb (terms r) =
             configureTerms h ((options r)\<lparr>fantasticBonusDice := None\<rparr>) 0 fb (terms r)"
    by (rule configureTerms_bonus)
  then show "map_sum id terms (configureDamage h (r\<lparr>options := (options r)\<lparr>fantasticBonusDice := b\<rparr>\<rparr>)) =
        map_sum id terms (configureDamage h (r\<lparr>options := (options r)\<lparr>fantasticBonusDice := None\<rparr>\<rparr>))"
    by (cases "extraDamageTerms h r")
       (simp_all add: configureDamage_terms_eq extraDamageTerms_bonus powerfulBonusTerms_bonus)
qed

theorem bonus_dice_first_term_only_witness:
  "configureDamage sampleHost
      (sampleDamage [NumericTerm 3 noTermOptions, OperatorTerm ''+'', DiceTerm 2 6 [] noTermOptions]
         (noOptions\<lparr>fantastic := Some True, fantasticBonusDice := Some 4\<rparr>))
    = Inr (sampleDamage
         [NumericTerm 3 noTermOptions, OperatorTerm ''+'',
          DiceTerm 4 6 [] (noTermOptions\<lparr>baseNumber := Some 2, termFantastic := Some True\<rparr>)]
         (noOptions\<lparr>fantastic := Some True, fantasticBonusDice := Some 4, configured := True\<rparr>))
   \<and> \<not> isDiceTerm (termAt [NumericTerm 3 noTermOptions, OperatorTerm ''+'',
                               DiceTerm 2 6 [] noTermOptions] 0)
   \<and> map_sum id terms (configureDamage sampleHost
        (sampleDamage [NumericTerm 3 noTermOptions, OperatorTerm ''+'', DiceTerm 2 6 [] noTermOptions]
           (noOptions\<lparr>fantastic := Some True, fantasticBonusDice := None\<rparr>)))
     = Inr [NumericTerm 3 noTermOptions, OperatorTerm ''+'',
            DiceTerm 4 6 [] (noTermOptions\<lparr>baseNumber := Some 2, termFantastic := Some True\<rparr>)]"
proof -
  let ?r = "sampleDamage [NumericTerm 3 noTermOptions, OperatorTerm ''+'', DiceTerm 2 6 [] noTermOptions]
         (noOptions\<lparr>fantastic := Some True, fantasticBonusDice := Some 4\<rparr>)"
  let ?r' = "sampleDamage
         [NumericTerm 3 noTermOptions, OperatorTerm ''+'',
          DiceTerm 4 6 [] (noTermOptions\<lparr>baseNumber := Some 2, termFantastic := Some True\<rparr>)]
         (noOptions\<lparr>fantastic := Some True, fantasticBonusDice := Some 4, configured := True\<rparr>)"
  have c: "configureDamage sampleHost ?r = Inr ?r'"
    by (simp add: sample_defs damage_defs)
  have n: "\<not> isDiceTerm (termAt (terms ?r) 0)"
    by (simp add: sample_defs termAt_def)
  have "configureDamage sampleHost ?r = Inr ?r' \<and> fantastic (options ?r) = Some True \<and> 0 < (2::nat)
      \<and> 2 < length (terms ?r) \<and> terms ?r ! 2 = DiceTerm 2 6 [] noTermOptions"
    using c by (simp add: sample_defs)
  with bonus_dice_first_term_only [of sampleHost ?r ?r' 2 2 6 "[]" noTermOptions None] n c
  show ?thesis
    by (simp add: sample_defs damage_defs)
qed

section \<open>Lemmas on the constructor\<close>

lemma preprocessFormula_options:
  "preprocessFormula h r = Inr r' \<Longrightarrow> options r' = (options r)\<lparr>preprocessed := True\<rparr>"
  by (cases "preprocessLoop h 0 (terms r)") (auto simp: preprocessFormula_def)

lemma preprocessFormula_terms:
  "preprocessFormula h r = Inr r' \<Longrightarrow> preprocessLoop h 0 (terms r) = Inr (terms r')"
  by (cases "preprocessLoop h 0 (terms r)") (auto simp: preprocessFormula_def)

lemma preprocessFormula_formula:
  "preprocessFormula h r = Inr r' \<Longrightarrow> formula r' = getFormula h (terms r')"
  by (cases "preprocessLoop h 0 (terms r)") (auto simp: preprocessFormula_def)

lemma configureDamage_formula:
  "configureDamage h r = Inr r' \<Longrightarrow> formula r' = getFormula h (terms r')"
  by (cases "extraDamageTerms h r") (auto simp: configureDamage_def split_def Let_def)

lemma construct_cases:
  assumes "newRoll h f d opts = Inr r0" and "construct h f d opts = Inr r'"
  shows "(r' = r0 \<and> preprocessed (options r0)
            \<and> (fantastic (options r0) = None \<or> configured (options r0)))
       \<or> (preprocessFormula h r0 = Inr r' \<and> \<not> preprocessed (options r0))
       \<or> (\<exists>x. configureDamage h x = Inr r')"
proof (cases "preprocessed (options r0)")
  case True
  show ?thesis
  proof (cases "fantastic (options r0) \<noteq> None \<and> \<not> configured (options r0)")
    case True
    with \<open>preprocessed (options r0)\<close> assms have "configureDamage h r0 = Inr r'"
      by (auto simp: construct_def)
    then show ?thesis by blast
  next
    case False
    with True assms have "r' = r0"
      by (auto simp: construct_def)
    with True False show ?thesis by blast
  qed
next
  case False
  show ?thesis
  proof (cases "preprocessFormula h r0")
    case (Inl e)
    with False assms show ?thesis by (simp add: construct_def)
  next
    case (Inr r1)
    show ?thesis
    proof (cases "fantastic (options r1) \<noteq> None \<and> \<not> configured (options r1)")
      case True
      with False Inr assms have "configureDamage h r1 = Inr r'"
        by (auto simp: construct_def)
      then show ?thesis by blast
    next
      case nc: False
      with False Inr assms have "r' = r1"
        by (auto simp: construct_def)
      with Inr False show ?thesis by blast
    qed
  qed
qed

section \<open>Construction without the fantastic option (C9)\<close>

text \<open>
  C9: when the roll that the base constructor returns has \<open>options.fantastic\<close>
  undefined, the constructor is the preprocessing alone (or nothing, when
  \<open>options.preprocessed\<close> is set): \<open>configureDamage\<close> is not run, so the term list of
  the new roll is the preprocessed one, with no term scaled and none appended, and
  \<open>options.configured\<close> is as it was given.
\<close>

theorem construct_without_fantastic:
  assumes "newRoll h f d opts = Inr r0"
    and "fantastic (options r0) = None"
  shows "construct h f d opts =
           (if preprocessed (options r0) then Inr r0 else preprocessFormula h r0)
       \<and> (\<forall>r. construct h f d opts = Inr r \<longrightarrow>
             configured (options r) = configured (options r0)
           \<and> fantastic (options r) = None
           \<and> (if preprocessed (options r0) then Inr (terms r0)
               else preprocessLoop h 0 (terms r0)) = Inr (terms r))"
proof -
  have c: "construct h f d opts =
           (if preprocessed (options r0) then Inr r0 else preprocessFormula h r0)"
  proof (cases "preprocessed (options r0)")
    case True
    with assms show ?thesis by (simp add: construct_def)
  next
    case False
    show ?thesis
    proof (cases "preprocessFormula h r0")
      case (Inl e)
      with False assms show ?thesis by (simp add: construct_def)
    next
      case (Inr r1)
      from preprocessFormula_options [OF Inr] assms(2) have "fantastic (options r1) = None"
        by simp
      with False Inr assms show ?thesis by (simp add: construct_def)
    qed
  qed
  have "configured (options r) = configured (options r0)
           \<and> fantastic (options r) = None
           \<and> (if preprocessed (options r0) then Inr (terms r0)
               else preprocessLoop h 0 (terms r0)) = Inr (terms r)"
    if r: "construct h f d opts = Inr r" for r
  proof (cases "preprocessed (options r0)")
    case True
    with c r have "r = r0" by simp
    with True assms(2) show ?thesis by simp
  next
    case False
    with c r have p: "preprocessFormula h r0 = Inr r" by simp
    from preprocessFormula_options [OF p] preprocessFormula_terms [OF p] False assms(2)
    show ?thesis by simp
  qed
  with c show ?thesis by blast
qed

theorem construct_without_fantastic_witness:
  "newRoll sampleHost ''d6'' [] noOptions = Inr (sampleDamage [StringTerm ''d6''] noOptions)
   \<and> fantastic (options (sampleDamage [StringTerm ''d6''] noOptions)) = None
   \<and> construct sampleHost ''d6'' [] noOptions
       = Inr (sampleDamage [DiceTerm 1 6 [] noTermOptions] (noOptions\<lparr>preprocessed := True\<rparr>))
   \<and> preprocessFormula sampleHost (sampleDamage [StringTerm ''d6''] noOptions)
       = Inr (sampleDamage [DiceTerm 1 6 [] noTermOptions] (noOptions\<lparr>preprocessed := True\<rparr>))
   \<and> \<not> configured (options (sampleDamage [DiceTerm 1 6 [] noTermOptions]
                                  (noOptions\<lparr>preprocessed := True\<rparr>)))"
proof -
  have n: "newRoll sampleHost ''d6'' [] noOptions = Inr (sampleDamage [StringTerm ''d6''] noOptions)"
    by (simp add: sample_defs)
  have u: "fantastic (options (sampleDamage [StringTerm ''d6''] noOptions)) = None"
    by (simp add: sample_defs)
  have p: "preprocessFormula sampleHost (sampleDamage [StringTerm ''d6''] noOptions)
       = Inr (sampleDamage [DiceTerm 1 6 [] noTermOptions] (noOptions\<lparr>preprocessed := True\<rparr>))"
    by (simp add: sample_defs damage_defs)
  from construct_without_fantastic [OF n u] n u p show ?thesis
    by (simp add: sample_defs)
qed

section \<open>The formula is recompiled from the terms (C5)\<close>

lemma configureDamage_state:
  "configureDamage h r = Inr r' \<Longrightarrow> configureDamageState h r = r'"
  by (cases "extraDamageTerms h r")
     (auto simp: configureDamage_def configureDamageState_def split_def Let_def)

text \<open>
  C5, as stated: after every call of \<open>configureDamage\<close> the formula of the roll is the
  one recompiled from its terms. It fails for a call that throws: on the roll \<open>2d6\<close>
  with \<open>options.fantastic = true\<close> and a bonus damage formula that the host refuses,
  the call throws after it has doubled the dice, and leaves the roll with the terms
  \<open>4d6\<close> and the formula \<open>2d6\<close>.
\<close>

theorem formula_recompiled_counterexample:
  "configureDamage sampleHost
      (sampleDamage [DiceTerm 2 6 [] noTermOptions]
         (noOptions\<lparr>fantastic := Some True, fantasticBonusDamage := Some ''(1''\<rparr>))
     = Inl (HostError ''Unbalanced parenthesis'')
   \<and> formula (configureDamageState sampleHost
        (sampleDamage [DiceTerm 2 6 [] noTermOptions]
           (noOptions\<lparr>fantastic := Some True, fantasticBonusDamage := Some ''(1''\<rparr>))) = ''2d6''
   \<and> getFormula sampleHost (terms (configureDamageState sampleHost
        (sampleDamage [DiceTerm 2 6 [] noTermOptions]
           (noOptions\<lparr>fantastic := Some True, fantasticBonusDamage := Some ''(1''\<rparr>)))) = ''4d6''"
  by (simp add: sample_defs damage_defs configureDamageState_def)

text \<open>
  C5, amended: after every call of \<open>preprocessFormula\<close>, \<open>configureDamage\<close> or \<open>fromData\<close>
  that returns, the formula of the roll is \<open>getFormula\<close> of its term list, and the roll
  that \<open>configureDamage\<close> returns is the object as the call leaves it; each of the
  three returns whenever its calls into the host do. So it is after a construction that
  returns, the roll of the base constructor being taken as consistent in the one case
  where the constructor of \<open>DamageRoll\<close> leaves it untouched (\<open>options.preprocessed\<close>
  set, and \<open>options.fantastic\<close> undefined or \<open>options.configured\<close> set).
\<close>

theorem formula_recompiled:
  "(preprocessFormula h r = Inr r' \<longrightarrow> formula r' = getFormula h (terms r'))
   \<and> (preprocessLoop h 0 (terms r) = Inr ts \<longrightarrow>
        (\<exists>r1. preprocessFormula h r = Inr r1 \<and> terms r1 = ts))
   \<and> (configureDamage h r = Inr r' \<longrightarrow>
        formula r' = getFormula h (terms r') \<and> configureDamageState h r = r')
   \<and> (extraDamageTerms h r = Inr extra \<longrightarrow> (\<exists>r1. configureDamage h r = Inr r1))
   \<and> (fromData h dat = Inr r' \<longrightarrow> formula r' = getFormula h (terms r'))
   \<and> (superFromData h dat = Inr r0 \<longrightarrow>
        fromData h dat = Inr (r0\<lparr>formula := getFormula h (terms r0)\<rparr>))
   \<and> (newRoll h f d opts = Inr r0
        \<and> (preprocessed (options r0) \<and> (fantastic (options r0) = None \<or> configured (options r0))
             \<longrightarrow> formula r0 = getFormula h (terms r0))
        \<and> construct h f d opts = Inr r' \<longrightarrow> formula r' = getFormula h (terms r'))"
proof (intro conjI impI)
  assume "preprocessFormula h r = Inr r'"
  then show "formula r' = getFormula h (terms r')"
    by (rule preprocessFormula_formula)
next
  assume "preprocessLoop h 0 (terms r) = Inr ts"
  then show "\<exists>r1. preprocessFormula h r = Inr r1 \<and> terms r1 = ts"
    by (simp add: preprocessFormula_def del: preprocessLoop.simps)
next
  assume "configureDamage h r = Inr r'"
  then show "formula r' = getFormula h (terms r')"
    by (rule configureDamage_formula)
next
  assume "configureDamage h r = Inr r'"
  then show "configureDamageState h r = r'"
    by (rule configureDamage_state)
next
  assume "extraDamageTerms h r = Inr extra"
  then show "\<exists>r1. configureDamage h r = Inr r1"
    by (simp add: configureDamage_def split_def Let_def)
next
  assume "fromData h dat = Inr r'"
  then show "formula r' = getFormula h (terms r')"
    by (cases "superFromData h dat") (auto simp: fromData_def)
next
  assume "superFromData h dat = Inr r0"
  then show "fromData h dat = Inr (r0\<lparr>formula := getFormula h (terms r0)\<rparr>)"
    by (simp add: fromData_def)
next
  assume a: "newRoll h f d opts = Inr r0
        \<and> (preprocessed (options r0) \<and> (fantastic (options r0) = None \<or> configured (options r0))
             \<longrightarrow> formula r0 = getFormula h (terms r0))
        \<and> construct h f d opts = Inr r'"
  then have n: "newRoll h f d opts = Inr r0" and c: "construct h f d opts = Inr r'"
    by simp_all
  from construct_cases [OF n c] a show "formula r' = getFormula h (terms r')"
    using preprocessFormula_formula configureDamage_formula by blast
qed

theorem formula_recompiled_witness:
  "preprocessFormula sampleHost
       \<lparr>terms = [StringTerm ''d6''], formula = ''d6'', options = noOptions, rollData = [],
          evaluated = False\<rparr>
     = Inr \<lparr>terms = [DiceTerm 1 6 [] noTermOptions], formula = ''1d6'',
            options = noOptions\<lparr>preprocessed := True\<rparr>, rollData = [], evaluated = False\<rparr>
   \<and> getFormula sampleHost [DiceTerm 1 6 [] noTermOptions] = ''1d6''
   \<and> configureDamage sampleHost
       \<lparr>terms = [DiceTerm 2 6 [] noTermOptions], formula = ''2d6'',
          options = noOptions\<lparr>fantastic := Some True\<rparr>, rollData = [], evaluated = False\<rparr>
     = Inr \<lparr>terms = [DiceTerm 4 6 [] (noTermOptions\<lparr>baseNumber := Some 2, termFantastic := Some True\<rparr>)],
            formula = ''4d6'',
            options = noOptions\<lparr>fantastic := Some True, configured := True\<rparr>,
            rollData = [], evaluated = False\<rparr>
   \<and> superFromData sampleHost ''02d6''
     = Inr \<lparr>terms = [DiceTerm 2 6 [] noTermOptions], formula = ''02d6'', options = noOptions,
            rollData = [], evaluated = False\<rparr>
   \<and> fromData sampleHost ''02d6''
     = Inr \<lparr>terms = [DiceTerm 2 6 [] noTermOptions], formula = ''2d6'', options = noOptions,
            rollData = [], evaluated = False\<rparr>
   \<and> getFormula sampleHost [DiceTerm 2 6 [] noTermOptions] = ''2d6''
   \<and> construct sampleHost ''2d6'' [] (noOptions\<lparr>fantastic := Some True\<rparr>)
     = Inr \<lparr>terms = [DiceTerm 4 6 [] (noTermOptions\<lparr>baseNumber := Some 2, termFantastic := Some True\<rparr>)],
            formula = ''4d6'',
            options = noOptions\<lparr>fantastic := Some True, preprocessed := True, configured := True\<rparr>,
            rollData = [], evaluated = False\<rparr>
   \<and> getFormula sampleHost
        [DiceTerm 4 6 [] (noTermOptions\<lparr>baseNumber := Some 2, termFantastic := Some True\<rparr>)] = ''4d6''"
proof -
  let ?r = "\<lparr>terms = [StringTerm ''d6''], formula = ''d6'', options = noOptions, rollData = [],
          evaluated = False\<rparr>"
  let ?r' = "\<lparr>terms = [DiceTerm 1 6 [] noTermOptions], formula = ''1d6'',
            options = noOptions\<lparr>preprocessed := True\<rparr>, rollData = [], evaluated = False\<rparr>"
  let ?g = "\<lparr>terms = [DiceTerm 2 6 [] noTermOptions], formula = ''2d6'',
          options = noOptions\<lparr>fantastic := Some True\<rparr>, rollData = [], evaluated = False\<rparr>"
  let ?g' = "\<lparr>terms = [DiceTerm 4 6 [] (noTermOptions\<lparr>baseNumber := Some 2, termFantastic := Some True\<rparr>)],
            formula = ''4d6'',
            options = noOptions\<lparr>fantastic := Some True, configured := True\<rparr>,
            rollData = [], evaluated = False\<rparr>"
  let ?s = "\<lparr>terms = [DiceTerm 2 6 [] noTermOptions], formula = ''02d6'', options = noOptions,
            rollData = [], evaluated = False\<rparr>"
  let ?c = "\<lparr>terms = [DiceTerm 4 6 [] (noTermOptions\<lparr>baseNumber := Some 2, termFantastic := Some True\<rparr>)],
            formula = ''4d6'',
            options = noOptions\<lparr>fantastic := Some True, preprocessed := True, configured := True\<rparr>,
            rollData = [], evaluated = False\<rparr>"
  note k1 = formula_recompiled [THEN conjunct1]
  note k2 = formula_recompiled [THEN conjunct2, THEN conjunct1]
  note k3 = formula_recompiled [THEN conjunct2, THEN conjunct2, THEN conjunct1]
  note k4 = formula_recompiled [THEN conjunct2, THEN conjunct2, THEN conjunct2, THEN conjunct1]
  note k5 = formula_recompiled [THEN conjunct2, THEN conjunct2, THEN conjunct2, THEN conjunct2,
      THEN conjunct1]
  note k6 = formula_recompiled [THEN conjunct2, THEN conjunct2, THEN conjunct2, THEN conjunct2,
      THEN conjunct2, THEN conjunct1]
  note k7 = formula_recompiled [THEN conjunct2, THEN conjunct2, THEN conjunct2, THEN conjunct2,
      THEN conjunct2, THEN conjunct2]
  have l: "preprocessLoop sampleHost 0 (terms ?r) = Inr [DiceTerm 1 6 [] noTermOptions]"
    by (simp add: sample_defs damage_defs)
  from k2 [THEN mp, OF l] obtain r1 where
    "preprocessFormula sampleHost ?r = Inr r1" and "terms r1 = [DiceTerm 1 6 [] noTermOptions]"
    by blast
  have p: "preprocessFormula sampleHost ?r = Inr ?r'"
    by (simp add: sample_defs damage_defs)
  have pf: "formula ?r' = getFormula sampleHost (terms ?r')"
    by (rule k1 [THEN mp, OF p])
  have x: "extraDamageTerms sampleHost ?g = Inr []"
    by (simp add: sample_defs damage_defs)
  from k4 [THEN mp, OF x] obtain g1 where "configureDamage sampleHost ?g = Inr g1"
    by blast
  have g: "configureDamage sampleHost ?g = Inr ?g'"
    by (simp add: sample_defs damage_defs)
  have gf: "formula ?g' = getFormula sampleHost (terms ?g') \<and> configureDamageState sampleHost ?g = ?g'"
    by (rule k3 [THEN mp, OF g])
  have s: "superFromData sampleHost ''02d6'' = Inr ?s"
    by (simp add: sample_defs)
  have fd: "fromData sampleHost ''02d6'' = Inr (?s\<lparr>formula := getFormula sampleHost (terms ?s)\<rparr>)"
    by (rule k6 [THEN mp, OF s])
  have ff: "formula (?s\<lparr>formula := getFormula sampleHost (terms ?s)\<rparr>)
      = getFormula sampleHost (terms (?s\<lparr>formula := getFormula sampleHost (terms ?s)\<rparr>))"
    by (rule k5 [THEN mp, OF fd])
  have n: "newRoll sampleHost ''2d6'' [] (noOptions\<lparr>fantastic := Some True\<rparr>)
          = Inr (sampleDamage [DiceTerm 2 6 [] noTermOptions] (noOptions\<lparr>fantastic := Some True\<rparr>))"
    by (simp add: sample_defs)
  have c: "construct sampleHost ''2d6'' [] (noOptions\<lparr>fantastic := Some True\<rparr>) = Inr ?c"
    by (simp add: sample_defs damage_defs)
  have "newRoll sampleHost ''2d6'' [] (noOptions\<lparr>fantastic := Some True\<rparr>)
          = Inr (sampleDamage [DiceTerm 2 6 [] noTermOptions] (noOptions\<lparr>fantastic := Some True\<rparr>))
        \<and> (preprocessed (options (sampleDamage [DiceTerm 2 6 [] noTermOptions]
                 (noOptions\<lparr>fantastic := Some True\<rparr>)))
             \<and> (fantastic (options (sampleDamage [DiceTerm 2 6 [] noTermOptions]
                   (noOptions\<lparr>fantastic := Some True\<rparr>))) = None
                \<or> configured (options (sampleDamage [DiceTerm 2 6 [] noTermOptions]
                   (noOptions\<lparr>fantastic := Some True\<rparr>))))
             \<longrightarrow> formula (sampleDamage [DiceTerm 2 6 [] noTermOptions]
                   (noOptions\<lparr>fantastic := Some True\<rparr>))
                 = getFormula sampleHost (terms (sampleDamage [DiceTerm 2 6 [] noTermOptions]
                   (noOptions\<lparr>fantastic := Some True\<rparr>))))
        \<and> construct sampleHost ''2d6'' [] (noOptions\<lparr>fantastic := Some True\<rparr>) = Inr ?c"
    using n c by (simp add: sample_defs)
  then have cf: "formula ?c = getFormula sampleHost (terms ?c)"
    by (rule k7 [THEN mp])
  from p pf g gf s fd ff c cf show ?thesis
    by (simp add: sample_defs)
qed

section \<open>The weapon schema (C6)\<close>

text \<open>
  C6: \<open>defineSchema\<close> sets \<open>melee\<close> and \<open>equipped\<close> to required boolean fields with
  initial values true and false, \<open>range\<close> to a required, non-nullable, integer number
  field with initial value 0, and each of the nine other fields it adds to a string
  field that admits the blank string; every other key is the inherited schema's.
\<close>

theorem weapon_schema:
  "defineSchema base ''melee''
     = Some (BooleanField \<lparr>required = Some True, nullable = None, integer = None, blank = None,
               initial = Some (BoolValue True)\<rparr>)
   \<and> defineSchema base ''equipped''
     = Some (BooleanField \<lparr>required = Some True, nullable = None, integer = None, blank = None,
               initial = Some (BoolValue False)\<rparr>)
   \<and> defineSchema base ''range''
     = Some (NumberField \<lparr>required = Some True, nullable = Some False, integer = Some True,
               blank = None, initial = Some (NumberValue 0)\<rparr>)
   \<and> (\<forall>k \<in> set [''damageMultiplier'', ''rule'', ''recommenedRank'', ''category'', ''size'',
                  ''reach'', ''description'', ''history'', ''commentary''].
        defineSchema base k
          = Some (StringField \<lparr>required = None, nullable = None, integer = None,
                    blank = Some True, initial = None\<rparr>))
   \<and> (\<forall>k. k \<notin> set [''melee'', ''range'', ''damageMultiplier'', ''rule'', ''recommenedRank'',
                     ''category'', ''size'', ''reach'', ''description'', ''history'',
                     ''commentary'', ''equipped'']
          \<longrightarrow> defineSchema base k = base k)"
  by (simp add: defineSchema_def noFieldOptions_def requiredInteger_def)

theorem weapon_schema_witness:
  "''rule'' \<in> set [''damageMultiplier'', ''rule'', ''recommenedRank'', ''category'', ''size'',
                  ''reach'', ''description'', ''history'', ''commentary'']
   \<and> defineSchema [''img'' \<mapsto> OtherField ''FilePathField'' noFieldOptions] ''rule''
       = Some (StringField \<lparr>required = None, nullable = None, integer = None,
                    blank = Some True, initial = None\<rparr>)
   \<and> ''img'' \<notin> set [''melee'', ''range'', ''damageMultiplier'', ''rule'', ''recommenedRank'',
                     ''category'', ''size'', ''reach'', ''description'', ''history'',
                     ''commentary'', ''equipped'']
   \<and> defineSchema [''img'' \<mapsto> OtherField ''FilePathField'' noFieldOptions] ''img''
       = Some (OtherField ''FilePathField'' noFieldOptions)"
  using weapon_schema [of "[''img'' \<mapsto> OtherField ''FilePathField'' noFieldOptions]"]
  by simp

section \<open>Lemmas on exceptions\<close>

lemma hostRaises_newRoll: "newRoll h f d opts = Inl e \<Longrightarrow> hostRaises h e"
  unfolding hostRaises_def by blast

lemma hostRaises_evaluateTotal: "evaluateTotal h t = Inl e \<Longrightarrow> hostRaises h e"
  unfolding hostRaises_def by blast

lemma hostRaises_evaluateRoll: "evaluateRoll h r = Inl e \<Longrightarrow> hostRaises h e"
  unfolding hostRaises_def by blast

lemma hostRaises_newMessage: "newMessage h md = Inl e \<Longrightarrow> hostRaises h e"
  unfolding hostRaises_def by blast

lemma hostRaises_createMessage: "createMessage h md rm = Inl e \<Longrightarrow> hostRaises h e"
  unfolding hostRaises_def by blast

lemma firstTerm_raises: "firstTerm h f = Inl e \<Longrightarrow> hostRaises h e"
  by (cases "newRoll h f [] noOptions") (auto simp: firstTerm_def dest: hostRaises_newRoll)

lemma preprocessStep_raises: "preprocessStep h i ts = Inl e \<Longrightarrow> hostRaises h e"
  by (auto simp: preprocessStep_def Let_def split: if_splits sum.splits
      dest: firstTerm_raises hostRaises_evaluateTotal)

lemma preprocessLoop_raises: "preprocessLoop h i ts = Inl e \<Longrightarrow> hostRaises h e"
proof (induction h i ts rule: preprocessLoop.induct)
  case (1 h i ts)
  show ?case
  proof (cases "i < length ts")
    case False
    with "1.prems" show ?thesis by simp
  next
    case True
    show ?thesis
    proof (cases "preprocessStep h i ts")
      case (Inl e')
      with True "1.prems" have "e' = e" by simp
      with Inl show ?thesis by (simp add: preprocessStep_raises)
    next
      case (Inr ts')
      with True "1.prems" have "preprocessLoop h (i + 1) ts' = Inl e" by simp
      with "1.IH" [OF True Inr] show ?thesis by simp
    qed
  qed
qed

lemma preprocessFormula_raises: "preprocessFormula h r = Inl e \<Longrightarrow> hostRaises h e"
  by (cases "preprocessLoop h 0 (terms r)")
     (auto simp: preprocessFormula_def simp del: preprocessLoop.simps dest: preprocessLoop_raises)

lemma extraDamageTerms_raises: "extraDamageTerms h r = Inl e \<Longrightarrow> hostRaises h e"
  by (auto simp: extraDamageTerms_def split: option.splits if_splits sum.splits
      dest: hostRaises_newRoll)

lemma configureDamage_raises: "configureDamage h r = Inl e \<Longrightarrow> hostRaises h e"
  by (cases "extraDamageTerms h r")
     (auto simp: configureDamage_def split_def Let_def dest: extraDamageTerms_raises)

lemma construct_raises:
  assumes "construct h f d opts = Inl e"
  shows "hostRaises h e"
proof (cases "newRoll h f d opts")
  case (Inl e')
  with assms have "e' = e" by (simp add: construct_def)
  with Inl show ?thesis by (simp add: hostRaises_newRoll)
next
  case (Inr r0)
  show ?thesis
  proof (cases "if \<not> preprocessed (options r0) then preprocessFormula h r0 else Inr r0")
    case (Inl e')
    with Inr assms have "e' = e" by (simp add: construct_def)
    with Inl have "preprocessFormula h r0 = Inl e" by (simp split: if_splits)
    then show ?thesis by (rule preprocessFormula_raises)
  next
    case r1: (Inr r1)
    with Inr assms have "configureDamage h r1 = Inl e"
      by (simp add: construct_def split: if_splits)
    then show ?thesis by (rule configureDamage_raises)
  qed
qed

lemma messageLoop_raises: "messageLoop h rolls fl rm isF = Inl e \<Longrightarrow> hostRaises h e"
proof (induction rolls arbitrary: fl rm isF)
  case Nil
  then show ?case by simp
next
  case (Cons roll rolls)
  show ?case
  proof (cases "if \<not> evaluated roll then evaluateRoll h roll else Inr roll")
    case (Inl e')
    with Cons.prems have "e' = e" by simp
    with Inl have "evaluateRoll h roll = Inl e" by (simp split: if_splits)
    then show ?thesis by (rule hostRaises_evaluateRoll)
  next
    case (Inr roll1)
    with Cons.prems obtain fl' rm' isF' where "messageLoop h rolls fl' rm' isF' = Inl e"
      by (auto split: sum.splits)
    then show ?thesis by (rule Cons.IH)
  qed
qed

lemma toMessage_raises:
  assumes "toMessage h rolls md rm create = Inl e"
  shows "hostRaises h e"
proof (cases "messageLoop h rolls (msgFlavor md) rm False")
  case (Inl e')
  with assms have "e' = e" by (simp add: toMessage_def)
  with Inl show ?thesis by (simp add: messageLoop_raises)
next
  case (Inr res)
  obtain rolls1 fl rm1 isF where res: "res = (rolls1, fl, rm1, isF)"
    by (cases res) auto
  from assms Inr res show ?thesis
    by (auto simp: toMessage_def Let_def split: sum.splits if_splits option.splits
        dest: hostRaises_newMessage hostRaises_createMessage)
qed

lemma toMessage_created:
  assumes "toMessage h rolls md rm True = Inr res"
  shows "\<exists>obj rm1 doc. createMessage h obj rm1 = Inr doc \<and> res = Created doc"
proof (cases "messageLoop h rolls (msgFlavor md) rm False")
  case (Inl e')
  with assms show ?thesis by (simp add: toMessage_def)
next
  case (Inr x)
  obtain rolls1 fl rm1 isF where x: "x = (rolls1, fl, rm1, isF)"
    by (cases x) auto
  from assms Inr x show ?thesis
    by (auto simp: toMessage_def Let_def split: sum.splits)
qed

lemma messageLoop_fails_at:
  assumes "\<forall>x \<in> set pre. evaluated x \<or> (\<exists>y. evaluateRoll h x = Inr y)"
    and "\<not> evaluated roll" and "evaluateRoll h roll = Inl e"
  shows "messageLoop h (pre @ roll # post) fl rm isF = Inl e"
  using assms(1)
proof (induction pre arbitrary: fl rm isF)
  case Nil
  from assms(2,3) show ?case by simp
next
  case (Cons x pre)
  then have rest: "\<And>fl rm isF. messageLoop h (pre @ roll # post) fl rm isF = Inl e"
    by simp
  show ?case
  proof (cases "evaluated x")
    case True
    then show ?thesis by (simp add: rest)
  next
    case False
    with Cons.prems obtain y where "evaluateRoll h x = Inr y" by auto
    with False show ?thesis by (simp add: rest)
  qed
qed

section \<open>Exceptions of the host propagate unchanged (C7)\<close>

text \<open>
  C7: no operation of \<open>DamageRoll\<close> catches or translates an exception of the host.
  \<^item> Every exception that leaves the constructor, \<open>preprocessFormula\<close>,
    \<open>configureDamage\<close> or the static \<open>toMessage\<close> is one that a call into the host
    raised.
  \<^item> The constructor fails with the exception of the base constructor, of the
    preprocessing and of \<open>configureDamage\<close>.
  \<^item> A turn of the preprocessing fails with the exception of each \<open>new Roll\<close> it makes
    (for the shorthand die, the prefix merge and the suffix merge) and of the evaluation
    of the term; the loop fails with the exception of the turn at hand and of every
    later turn, and \<open>preprocessFormula\<close> with that of the loop.
  \<^item> \<open>configureDamage\<close> fails with the exception of \<open>new Roll\<close> on the bonus damage.
  \<^item> \<open>toMessage\<close> fails with the rejection of the first evaluation that fails, whatever
    the position of the roll, with the exception of the chat message constructor and
    with the rejection of the creation; and when it is asked to create the message and
    returns, the host created it.
\<close>

theorem errors_propagate:
  "(construct h f d opts = Inl e \<longrightarrow> hostRaises h e)
   \<and> (preprocessFormula h r = Inl e \<longrightarrow> hostRaises h e)
   \<and> (configureDamage h r = Inl e \<longrightarrow> hostRaises h e)
   \<and> (toMessage h rolls md rm create = Inl e \<longrightarrow> hostRaises h e)
   \<and> (newRoll h f d opts = Inl e \<longrightarrow> construct h f d opts = Inl e)
   \<and> (newRoll h f d opts = Inr r0 \<and> \<not> preprocessed (options r0)
        \<and> preprocessFormula h r0 = Inl e \<longrightarrow> construct h f d opts = Inl e)
   \<and> (newRoll h f d opts = Inr r0
        \<and> (if \<not> preprocessed (options r0) then preprocessFormula h r0 else Inr r0) = Inr r1
        \<and> fantastic (options r1) \<noteq> None \<and> \<not> configured (options r1)
        \<and> configureDamage h r1 = Inl e \<longrightarrow> construct h f d opts = Inl e)
   \<and> (i < length ts \<and> ts ! i = StringTerm s \<and> shorthandDie s
        \<and> \<not> isParentheticalTerm (termAt ts (int i - 1))
        \<and> newRoll h (CHR ''1'' # s) [] noOptions = Inl e \<longrightarrow> preprocessStep h i ts = Inl e)
   \<and> (i < length ts \<and> (isParentheticalTerm (Some (ts ! i)) \<or> isFunctionTerm (Some (ts ! i)))
        \<and> ((isParentheticalTerm (Some (ts ! i)) \<and> isStringTerm (termAt ts (int i - 1))
               \<and> dicePrefix (termText (termAt ts (int i - 1))))
             \<or> (isStringTerm (termAt ts (int i + 1))
               \<and> diceSuffix (termText (termAt ts (int i + 1)))))
        \<and> isDeterministic h (ts ! i) \<and> evaluateTotal h (ts ! i) = Inl e
        \<longrightarrow> preprocessStep h i ts = Inl e)
   \<and> (i < length ts \<and> isParentheticalTerm (Some (ts ! i))
        \<and> isStringTerm (termAt ts (int i - 1)) \<and> dicePrefix (termText (termAt ts (int i - 1)))
        \<and> isDeterministic h (ts ! i) \<and> evaluateTotal h (ts ! i) = Inr tot
        \<and> newRoll h (termText (termAt ts (int i - 1)) @ tot
                       @ (if isStringTerm (termAt ts (int i + 1))
                          then termText (termAt ts (int i + 1)) else []))
             [] noOptions = Inl e
        \<longrightarrow> preprocessStep h i ts = Inl e)
   \<and> (i < length ts \<and> (isParentheticalTerm (Some (ts ! i)) \<or> isFunctionTerm (Some (ts ! i)))
        \<and> \<not> (isParentheticalTerm (Some (ts ! i)) \<and> isStringTerm (termAt ts (int i - 1))
              \<and> dicePrefix (termText (termAt ts (int i - 1))))
        \<and> isStringTerm (termAt ts (int i + 1)) \<and> diceSuffix (termText (termAt ts (int i + 1)))
        \<and> isDeterministic h (ts ! i) \<and> evaluateTotal h (ts ! i) = Inr tot
        \<and> newRoll h (tot @ termText (termAt ts (int i + 1))) [] noOptions = Inl e
        \<longrightarrow> preprocessStep h i ts = Inl e)
   \<and> (i < length ts \<and> preprocessStep h i ts = Inl e \<longrightarrow> preprocessLoop h i ts = Inl e)
   \<and> (i < length ts \<and> preprocessStep h i ts = Inr ts1 \<and> preprocessLoop h (i + 1) ts1 = Inl e
        \<longrightarrow> preprocessLoop h i ts = Inl e)
   \<and> (preprocessLoop h 0 (terms r) = Inl e \<longrightarrow> preprocessFormula h r = Inl e)
   \<and> (fantastic (options r) = Some True \<and> fantasticBonusDamage (options r) = Some bd
        \<and> bd \<noteq> [] \<and> newRoll h bd (rollData r) noOptions = Inl e
        \<longrightarrow> configureDamage h r = Inl e)
   \<and> ((\<forall>x \<in> set pre. evaluated x \<or> (\<exists>y. evaluateRoll h x = Inr y))
        \<and> \<not> evaluated roll \<and> evaluateRoll h roll = Inl e
        \<longrightarrow> toMessage h (pre @ roll # post) md rm create = Inl e)
   \<and> (messageLoop h rolls (msgFlavor md) rm False = Inr (rolls1, fl, rm1, isF)
        \<and> newMessage h (prepareChatData h md rolls1 fl isF) = Inl e
        \<longrightarrow> toMessage h rolls md rm create = Inl e)
   \<and> (messageLoop h rolls (msgFlavor md) rm False = Inr (rolls1, fl, rm1, isF)
        \<and> newMessage h (prepareChatData h md rolls1 fl isF) = Inr msg
        \<and> createMessage h (toObject h msg)
             (case rm1 of None \<Rightarrow> msgRollMode md | Some x \<Rightarrow> Some x) = Inl e
        \<longrightarrow> toMessage h rolls md rm True = Inl e)
   \<and> (toMessage h rolls md rm True = Inr res
        \<longrightarrow> (\<exists>obj rm2 doc. createMessage h obj rm2 = Inr doc \<and> res = Created doc))"
proof (intro conjI impI)
  assume "construct h f d opts = Inl e"
  then show "hostRaises h e" by (rule construct_raises)
next
  assume "preprocessFormula h r = Inl e"
  then show "hostRaises h e" by (rule preprocessFormula_raises)
next
  assume "configureDamage h r = Inl e"
  then show "hostRaises h e" by (rule configureDamage_raises)
next
  assume "toMessage h rolls md rm create = Inl e"
  then show "hostRaises h e" by (rule toMessage_raises)
next
  assume "newRoll h f d opts = Inl e"
  then show "construct h f d opts = Inl e" by (simp add: construct_def)
next
  assume "newRoll h f d opts = Inr r0 \<and> \<not> preprocessed (options r0)
        \<and> preprocessFormula h r0 = Inl e"
  then show "construct h f d opts = Inl e" by (simp add: construct_def)
next
  assume a: "newRoll h f d opts = Inr r0
        \<and> (if \<not> preprocessed (options r0) then preprocessFormula h r0 else Inr r0) = Inr r1
        \<and> fantastic (options r1) \<noteq> None \<and> \<not> configured (options r1)
        \<and> configureDamage h r1 = Inl e"
  then have "construct h f d opts
      = (if fantastic (options r1) \<noteq> None \<and> \<not> configured (options r1)
         then configureDamage h r1 else Inr r1)"
    by (simp add: construct_def)
  with a show "construct h f d opts = Inl e" by auto
next
  assume "i < length ts \<and> ts ! i = StringTerm s \<and> shorthandDie s
        \<and> \<not> isParentheticalTerm (termAt ts (int i - 1))
        \<and> newRoll h (CHR ''1'' # s) [] noOptions = Inl e"
  then show "preprocessStep h i ts = Inl e"
    by (simp add: preprocessStep_def firstTerm_def Let_def)
next
  assume a: "i < length ts \<and> (isParentheticalTerm (Some (ts ! i)) \<or> isFunctionTerm (Some (ts ! i)))
        \<and> ((isParentheticalTerm (Some (ts ! i)) \<and> isStringTerm (termAt ts (int i - 1))
               \<and> dicePrefix (termText (termAt ts (int i - 1))))
             \<or> (isStringTerm (termAt ts (int i + 1))
               \<and> diceSuffix (termText (termAt ts (int i + 1)))))
        \<and> isDeterministic h (ts ! i) \<and> evaluateTotal h (ts ! i) = Inl e"
  then have "\<not> isStringTerm (Some (ts ! i))"
    by (cases "ts ! i") auto
  with a show "preprocessStep h i ts = Inl e"
    by (auto simp: preprocessStep_def Let_def)
next
  assume a: "i < length ts \<and> isParentheticalTerm (Some (ts ! i))
        \<and> isStringTerm (termAt ts (int i - 1)) \<and> dicePrefix (termText (termAt ts (int i - 1)))
        \<and> isDeterministic h (ts ! i) \<and> evaluateTotal h (ts ! i) = Inr tot
        \<and> newRoll h (termText (termAt ts (int i - 1)) @ tot
                       @ (if isStringTerm (termAt ts (int i + 1))
                          then termText (termAt ts (int i + 1)) else []))
             [] noOptions = Inl e"
  then have "\<not> isStringTerm (Some (ts ! i))"
    by (cases "ts ! i") auto
  with a show "preprocessStep h i ts = Inl e"
    by (auto simp: preprocessStep_def firstTerm_def Let_def split: if_splits)
next
  assume a: "i < length ts \<and> (isParentheticalTerm (Some (ts ! i)) \<or> isFunctionTerm (Some (ts ! i)))
        \<and> \<not> (isParentheticalTerm (Some (ts ! i)) \<and> isStringTerm (termAt ts (int i - 1))
              \<and> dicePrefix (termText (termAt ts (int i - 1))))
        \<and> isStringTerm (termAt ts (int i + 1)) \<and> diceSuffix (termText (termAt ts (int i + 1)))
        \<and> isDeterministic h (ts ! i) \<and> evaluateTotal h (ts ! i) = Inr tot
        \<and> newRoll h (tot @ termText (termAt ts (int i + 1))) [] noOptions = Inl e"
  then have "\<not> isStringTerm (Some (ts ! i))"
    by (cases "ts ! i") auto
  with a show "preprocessStep h i ts = Inl e"
    by (auto simp: preprocessStep_def firstTerm_def Let_def)
next
  assume "i < length ts \<and> preprocessStep h i ts = Inl e"
  then show "preprocessLoop h i ts = Inl e" by simp
next
  assume "i < length ts \<and> preprocessStep h i ts = Inr ts1 \<and> preprocessLoop h (i + 1) ts1 = Inl e"
  then show "preprocessLoop h i ts = Inl e"
    by (subst preprocessLoop.simps) (simp del: preprocessLoop.simps)
next
  assume "preprocessLoop h 0 (terms r) = Inl e"
  then show "preprocessFormula h r = Inl e"
    by (simp add: preprocessFormula_def del: preprocessLoop.simps)
next
  assume "fantastic (options r) = Some True \<and> fantasticBonusDamage (options r) = Some bd
        \<and> bd \<noteq> [] \<and> newRoll h bd (rollData r) noOptions = Inl e"
  then have "extraDamageTerms h r = Inl e"
    by (simp add: extraDamageTerms_def)
  then show "configureDamage h r = Inl e"
    by (simp add: configureDamage_def split_def Let_def)
next
  assume "(\<forall>x \<in> set pre. evaluated x \<or> (\<exists>y. evaluateRoll h x = Inr y))
        \<and> \<not> evaluated roll \<and> evaluateRoll h roll = Inl e"
  then have "messageLoop h (pre @ roll # post) (msgFlavor md) rm False = Inl e"
    by (intro messageLoop_fails_at) simp_all
  then show "toMessage h (pre @ roll # post) md rm create = Inl e"
    by (simp add: toMessage_def)
next
  assume "messageLoop h rolls (msgFlavor md) rm False = Inr (rolls1, fl, rm1, isF)
        \<and> newMessage h (prepareChatData h md rolls1 fl isF) = Inl e"
  then show "toMessage h rolls md rm create = Inl e"
    by (simp add: toMessage_def)
next
  assume "messageLoop h rolls (msgFlavor md) rm False = Inr (rolls1, fl, rm1, isF)
        \<and> newMessage h (prepareChatData h md rolls1 fl isF) = Inr msg
        \<and> createMessage h (toObject h msg)
             (case rm1 of None \<Rightarrow> msgRollMode md | Some x \<Rightarrow> Some x) = Inl e"
  then show "toMessage h rolls md rm True = Inl e"
    by (simp add: toMessage_def)
next
  assume "toMessage h rolls md rm True = Inr res"
  then show "\<exists>obj rm2 doc. createMessage h obj rm2 = Inr doc \<and> res = Created doc"
    by (rule toMessage_created)
qed

theorem errors_propagate_witness:
  "construct sampleHost ''2d('' [] noOptions = Inl (HostError ''Unbalanced parenthesis'')
   \<and> hostRaises sampleHost (HostError ''Unbalanced parenthesis'')
   \<and> construct refusingHost ''d6'' [] noOptions = Inl (HostError ''Refused'')
   \<and> construct sampleHost ''2d6'' []
         (noOptions\<lparr>fantastic := Some True, fantasticBonusDamage := Some ''(1''\<rparr>)
       = Inl (HostError ''Unbalanced parenthesis'')
   \<and> preprocessStep sampleHost 0 [StringTerm ''d6(''] = Inl (HostError ''Unbalanced parenthesis'')
   \<and> preprocessStep failingTotalHost 0 [ParentheticalTerm ''2'', StringTerm ''d6'']
       = Inl (HostError ''Evaluation failed'')
   \<and> preprocessStep sampleHost 1 [StringTerm ''2d'', ParentheticalTerm ''3'', StringTerm ''(k'']
       = Inl (HostError ''Unbalanced parenthesis'')
   \<and> preprocessStep refusingHost 0 [ParentheticalTerm ''1'', StringTerm ''d6'']
       = Inl (HostError ''Refused'')
   \<and> preprocessLoop sampleHost 0 [StringTerm ''d6(''] = Inl (HostError ''Unbalanced parenthesis'')
   \<and> preprocessLoop sampleHost 0 [OperatorTerm ''-'', StringTerm ''d6('']
       = Inl (HostError ''Unbalanced parenthesis'')
   \<and> preprocessFormula sampleHost (sampleDamage [StringTerm ''d6(''] noOptions)
       = Inl (HostError ''Unbalanced parenthesis'')
   \<and> configureDamage sampleHost
         (sampleDamage [DiceTerm 2 6 [] noTermOptions]
            (noOptions\<lparr>fantastic := Some True, fantasticBonusDamage := Some ''(1''\<rparr>))
       = Inl (HostError ''Unbalanced parenthesis'')
   \<and> toMessage sampleHost
         [sampleDamage [DiceTerm 2 6 [] noTermOptions] noOptions,
          sampleDamage [StringTerm ''x''] noOptions] noMessageData None True
       = Inl (HostError ''Unresolved StringTerm'')
   \<and> hostRaises sampleHost (HostError ''Unresolved StringTerm'')
   \<and> toMessage invalidMessageHost [sampleDamage [DiceTerm 2 6 [] noTermOptions] noOptions]
         noMessageData None True
       = Inl (HostError ''Invalid message'')
   \<and> toMessage sampleHost [sampleDamage [DiceTerm 2 6 [] noTermOptions] noOptions]
         (noMessageData\<lparr>msgUser := Some []\<rparr>) None True
       = Inl (HostError ''Validation failed'')
   \<and> toMessage sampleHost [sampleDamage [DiceTerm 2 6 [] noTermOptions] noOptions]
         noMessageData None True
       = Inr (Created (ChatMessage (noMessageData\<lparr>msgUser := Some ''user'',
                msgSound := Some ''sounds/dice.wav'',
                msgRolls := [(sampleDamage [DiceTerm 2 6 [] noTermOptions] noOptions)
                               \<lparr>evaluated := True\<rparr>]\<rparr>)))"
proof -
  let ?e = "HostError ''Unbalanced parenthesis''"
  let ?u = "HostError ''Unresolved StringTerm''"
  let ?f = "HostError ''Refused''"
  let ?v = "HostError ''Evaluation failed''"
  let ?m = "HostError ''Invalid message''"
  let ?w = "HostError ''Validation failed''"
  let ?p = "sampleDamage [StringTerm ''d6(''] noOptions"
  let ?c = "sampleDamage [DiceTerm 2 6 [] noTermOptions]
            (noOptions\<lparr>fantastic := Some True, fantasticBonusDamage := Some ''(1''\<rparr>)"
  let ?g = "sampleDamage [DiceTerm 2 6 [] noTermOptions] noOptions"
  let ?x = "sampleDamage [StringTerm ''x''] noOptions"
  let ?t2 = "[StringTerm ''2d'', ParentheticalTerm ''3'', StringTerm ''(k'']"
  let ?t3 = "[ParentheticalTerm ''1'', StringTerm ''d6'']"
  let ?t4 = "[ParentheticalTerm ''2'', StringTerm ''d6'']"
  let ?t5 = "[OperatorTerm ''-'', StringTerm ''d6('']"
  let ?bad = "noMessageData\<lparr>msgUser := Some []\<rparr>"
  note c1 = errors_propagate [THEN conjunct1]
  note c2 = errors_propagate [THEN conjunct2, THEN conjunct1]
  note c3 = errors_propagate [THEN conjunct2, THEN conjunct2, THEN conjunct1]
  note c4 = errors_propagate [THEN conjunct2, THEN conjunct2, THEN conjunct2, THEN conjunct1]
  note c5 = errors_propagate [THEN conjunct2, THEN conjunct2, THEN conjunct2, THEN conjunct2,
      THEN conjunct1]
  note c6 = errors_propagate [THEN conjunct2, THEN conjunct2, THEN conjunct2, THEN conjunct2,
      THEN conjunct2, THEN conjunct1]
  note c7 = errors_propagate [THEN conjunct2, THEN conjunct2, THEN conjunct2, THEN conjunct2,
      THEN conjunct2, THEN conjunct2, THEN conjunct1]
  note c8 = errors_propagate [THEN conjunct2, THEN conjunct2, THEN conjunct2, THEN conjunct2,
      THEN conjunct2, THEN conjunct2, THEN conjunct2, THEN conjunct1]
  note c9 = errors_propagate [THEN conjunct2, THEN conjunct2, THEN conjunct2, THEN conjunct2,
      THEN conjunct2, THEN conjunct2, THEN conjunct2, THEN conjunct2, THEN conjunct1]
  note c10 = errors_propagate [THEN conjunct2, THEN conjunct2, THEN conjunct2, THEN conjunct2,
      THEN conjunct2, THEN conjunct2, THEN conjunct2, THEN conjunct2, THEN conjunct2,
      THEN conjunct1]
  note c11 = errors_propagate [THEN conjunct2, THEN conjunct2, THEN conjunct2, THEN conjunct2,
      THEN conjunct2, THEN conjunct2, THEN conjunct2, THEN conjunct2, THEN conjunct2,
      THEN conjunct2, THEN conjunct1]
  note c12 = errors_propagate [THEN conjunct2, THEN conjunct2, THEN conjunct2, THEN conjunct2,
      THEN conjunct2, THEN conjunct2, THEN conjunct2, THEN conjunct2, THEN conjunct2,
      THEN conjunct2, THEN conjunct2, THEN conjunct1]
  note c13 = errors_propagate [THEN conjunct2, THEN conjunct2, THEN conjunct2, THEN conjunct2,
      THEN conjunct2, THEN conjunct2, THEN conjunct2, THEN conjunct2, THEN conjunct2,
      THEN conjunct2, THEN conjunct2, THEN conjunct2, THEN conjunct1]
  note c14 = errors_propagate [THEN conjunct2, THEN conjunct2, THEN conjunct2, THEN conjunct2,
      THEN conjunct2, THEN conjunct2, THEN conjunct2, THEN conjunct2, THEN conjunct2,
      THEN conjunct2, THEN conjunct2, THEN conjunct2, THEN conjunct2, THEN conjunct1]
  note c15 = errors_propagate [THEN conjunct2, THEN conjunct2, THEN conjunct2, THEN conjunct2,
      THEN conjunct2, THEN conjunct2, THEN conjunct2, THEN conjunct2, THEN conjunct2,
      THEN conjunct2, THEN conjunct2, THEN conjunct2, THEN conjunct2, THEN conjunct2,
      THEN conjunct1]
  note c16 = errors_propagate [THEN conjunct2, THEN conjunct2, THEN conjunct2, THEN conjunct2,
      THEN conjunct2, THEN conjunct2, THEN conjunct2, THEN conjunct2, THEN conjunct2,
      THEN conjunct2, THEN conjunct2, THEN conjunct2, THEN conjunct2, THEN conjunct2,
      THEN conjunct2, THEN conjunct1]
  note c17 = errors_propagate [THEN conjunct2, THEN conjunct2, THEN conjunct2, THEN conjunct2,
      THEN conjunct2, THEN conjunct2, THEN conjunct2, THEN conjunct2, THEN conjunct2,
      THEN conjunct2, THEN conjunct2, THEN conjunct2, THEN conjunct2, THEN conjunct2,
      THEN conjunct2, THEN conjunct2, THEN conjunct1]
  note c18 = errors_propagate [THEN conjunct2, THEN conjunct2, THEN conjunct2, THEN conjunct2,
      THEN conjunct2, THEN conjunct2, THEN conjunct2, THEN conjunct2, THEN conjunct2,
      THEN conjunct2, THEN conjunct2, THEN conjunct2, THEN conjunct2, THEN conjunct2,
      THEN conjunct2, THEN conjunct2, THEN conjunct2, THEN conjunct1]
  note c19 = errors_propagate [THEN conjunct2, THEN conjunct2, THEN conjunct2, THEN conjunct2,
      THEN conjunct2, THEN conjunct2, THEN conjunct2, THEN conjunct2, THEN conjunct2,
      THEN conjunct2, THEN conjunct2, THEN conjunct2, THEN conjunct2, THEN conjunct2,
      THEN conjunct2, THEN conjunct2, THEN conjunct2, THEN conjunct2]
  have n: "newRoll sampleHost ''2d('' [] noOptions = Inl ?e"
    by (simp add: sample_defs)
  have w5: "construct sampleHost ''2d('' [] noOptions = Inl ?e"
    by (rule c5 [THEN mp, OF n])
  have w1: "hostRaises sampleHost ?e"
    by (rule c1 [THEN mp, OF w5])
  have h6: "newRoll refusingHost ''d6'' [] noOptions = Inr (sampleDamage [StringTerm ''d6''] noOptions)
        \<and> \<not> preprocessed (options (sampleDamage [StringTerm ''d6''] noOptions))
        \<and> preprocessFormula refusingHost (sampleDamage [StringTerm ''d6''] noOptions) = Inl ?f"
    by (simp add: refusingHost_def sample_defs damage_defs)
  have w6: "construct refusingHost ''d6'' [] noOptions = Inl ?f"
    by (rule c6 [THEN mp, OF h6])
  have h7: "newRoll sampleHost ''2d6'' []
          (noOptions\<lparr>fantastic := Some True, fantasticBonusDamage := Some ''(1''\<rparr>) = Inr ?c
        \<and> (if \<not> preprocessed (options ?c) then preprocessFormula sampleHost ?c else Inr ?c)
            = Inr (?c\<lparr>options := (options ?c)\<lparr>preprocessed := True\<rparr>\<rparr>)
        \<and> fantastic (options (?c\<lparr>options := (options ?c)\<lparr>preprocessed := True\<rparr>\<rparr>)) \<noteq> None
        \<and> \<not> configured (options (?c\<lparr>options := (options ?c)\<lparr>preprocessed := True\<rparr>\<rparr>))
        \<and> configureDamage sampleHost (?c\<lparr>options := (options ?c)\<lparr>preprocessed := True\<rparr>\<rparr>)
            = Inl ?e"
    by (simp add: sample_defs damage_defs)
  have w7: "construct sampleHost ''2d6'' []
          (noOptions\<lparr>fantastic := Some True, fantasticBonusDamage := Some ''(1''\<rparr>) = Inl ?e"
    by (rule c7 [THEN mp, OF h7])
  have h8: "0 < length [StringTerm ''d6(''] \<and> [StringTerm ''d6(''] ! 0 = StringTerm ''d6(''
        \<and> shorthandDie ''d6(''
        \<and> \<not> isParentheticalTerm (termAt [StringTerm ''d6(''] (int 0 - 1))
        \<and> newRoll sampleHost (CHR ''1'' # ''d6('') [] noOptions = Inl ?e"
    by (simp add: sample_defs termAt_def)
  have w8: "preprocessStep sampleHost 0 [StringTerm ''d6(''] = Inl ?e"
    by (rule c8 [THEN mp, OF h8])
  have h9: "0 < length ?t4
        \<and> (isParentheticalTerm (Some (?t4 ! 0)) \<or> isFunctionTerm (Some (?t4 ! 0)))
        \<and> ((isParentheticalTerm (Some (?t4 ! 0)) \<and> isStringTerm (termAt ?t4 (int 0 - 1))
               \<and> dicePrefix (termText (termAt ?t4 (int 0 - 1))))
             \<or> (isStringTerm (termAt ?t4 (int 0 + 1))
               \<and> diceSuffix (termText (termAt ?t4 (int 0 + 1)))))
        \<and> isDeterministic failingTotalHost (?t4 ! 0)
        \<and> evaluateTotal failingTotalHost (?t4 ! 0) = Inl ?v"
    by (simp add: failingTotalHost_def sample_defs termAt_def)
  have w9: "preprocessStep failingTotalHost 0 ?t4 = Inl ?v"
    by (rule c9 [THEN mp, OF h9])
  have h10: "1 < length ?t2 \<and> isParentheticalTerm (Some (?t2 ! 1))
        \<and> isStringTerm (termAt ?t2 (int 1 - 1)) \<and> dicePrefix (termText (termAt ?t2 (int 1 - 1)))
        \<and> isDeterministic sampleHost (?t2 ! 1) \<and> evaluateTotal sampleHost (?t2 ! 1) = Inr ''3''
        \<and> newRoll sampleHost (termText (termAt ?t2 (int 1 - 1)) @ ''3''
                       @ (if isStringTerm (termAt ?t2 (int 1 + 1))
                          then termText (termAt ?t2 (int 1 + 1)) else []))
             [] noOptions = Inl ?e"
    by (simp add: sample_defs termAt_def dicePrefix_def)
  have w10: "preprocessStep sampleHost 1 ?t2 = Inl ?e"
    by (rule c10 [THEN mp, OF h10])
  have h11: "0 < length ?t3
        \<and> (isParentheticalTerm (Some (?t3 ! 0)) \<or> isFunctionTerm (Some (?t3 ! 0)))
        \<and> \<not> (isParentheticalTerm (Some (?t3 ! 0)) \<and> isStringTerm (termAt ?t3 (int 0 - 1))
              \<and> dicePrefix (termText (termAt ?t3 (int 0 - 1))))
        \<and> isStringTerm (termAt ?t3 (int 0 + 1)) \<and> diceSuffix (termText (termAt ?t3 (int 0 + 1)))
        \<and> isDeterministic refusingHost (?t3 ! 0) \<and> evaluateTotal refusingHost (?t3 ! 0) = Inr ''1''
        \<and> newRoll refusingHost (''1'' @ termText (termAt ?t3 (int 0 + 1))) [] noOptions = Inl ?f"
    by (simp add: refusingHost_def sample_defs termAt_def)
  have w11: "preprocessStep refusingHost 0 ?t3 = Inl ?f"
    by (rule c11 [THEN mp, OF h11])
  have h12: "0 < length [StringTerm ''d6(''] \<and> preprocessStep sampleHost 0 [StringTerm ''d6(''] = Inl ?e"
    using w8 by (simp del: preprocessLoop.simps)
  have w12: "preprocessLoop sampleHost 0 [StringTerm ''d6(''] = Inl ?e"
    by (rule c12 [THEN mp, OF h12])
  have h13: "0 < length ?t5 \<and> preprocessStep sampleHost 0 ?t5 = Inr ?t5
        \<and> preprocessLoop sampleHost (0 + 1) ?t5 = Inl ?e"
    by (simp add: sample_defs damage_defs)
  have w13: "preprocessLoop sampleHost 0 ?t5 = Inl ?e"
    by (rule c13 [THEN mp, OF h13])
  have h14: "preprocessLoop sampleHost 0 (terms ?p) = Inl ?e"
    using w12 by (simp only: sampleDamage_def damage_roll.simps)
  have w14: "preprocessFormula sampleHost ?p = Inl ?e"
    by (rule c14 [THEN mp, OF h14])
  have w2: "hostRaises sampleHost ?e"
    by (rule c2 [THEN mp, OF w14])
  have h15: "fantastic (options ?c) = Some True \<and> fantasticBonusDamage (options ?c) = Some ''(1''
        \<and> ''(1'' \<noteq> [] \<and> newRoll sampleHost ''(1'' (rollData ?c) noOptions = Inl ?e"
    by (simp add: sample_defs)
  have w15: "configureDamage sampleHost ?c = Inl ?e"
    by (rule c15 [THEN mp, OF h15])
  have w3: "hostRaises sampleHost ?e"
    by (rule c3 [THEN mp, OF w15])
  have h16: "(\<forall>x \<in> set [?g]. evaluated x \<or> (\<exists>y. evaluateRoll sampleHost x = Inr y))
        \<and> \<not> evaluated ?x \<and> evaluateRoll sampleHost ?x = Inl ?u"
    by (simp add: sample_defs)
  have w16: "toMessage sampleHost ([?g] @ ?x # []) noMessageData None True = Inl ?u"
    by (rule c16 [THEN mp, OF h16])
  have w4: "hostRaises sampleHost ?u"
    by (rule c4 [THEN mp, OF w16])
  have h17: "messageLoop invalidMessageHost [?g] (msgFlavor noMessageData) None False
          = Inr ([?g\<lparr>evaluated := True\<rparr>], None, None, False)
        \<and> newMessage invalidMessageHost
            (prepareChatData invalidMessageHost noMessageData [?g\<lparr>evaluated := True\<rparr>] None False)
          = Inl ?m"
    by (simp add: invalidMessageHost_def sample_defs noMessageData_def)
  have w17: "toMessage invalidMessageHost [?g] noMessageData None True = Inl ?m"
    by (rule c17 [THEN mp, OF h17])
  have h18: "messageLoop sampleHost [?g] (msgFlavor ?bad) None False
          = Inr ([?g\<lparr>evaluated := True\<rparr>], None, None, False)
        \<and> newMessage sampleHost (prepareChatData sampleHost ?bad [?g\<lparr>evaluated := True\<rparr>] None False)
          = Inr (ChatMessage (prepareChatData sampleHost ?bad [?g\<lparr>evaluated := True\<rparr>] None False))
        \<and> createMessage sampleHost
             (toObject sampleHost
                (ChatMessage (prepareChatData sampleHost ?bad [?g\<lparr>evaluated := True\<rparr>] None False)))
             (case None of None \<Rightarrow> msgRollMode ?bad | Some x \<Rightarrow> Some x) = Inl ?w"
    by (simp add: sample_defs noMessageData_def prepareChatData_def)
  have w18: "toMessage sampleHost [?g] ?bad None True = Inl ?w"
    by (rule c18 [THEN mp, OF h18])
  have t: "toMessage sampleHost [?g] noMessageData None True
       = Inr (Created (ChatMessage (noMessageData\<lparr>msgUser := Some ''user'',
                msgSound := Some ''sounds/dice.wav'',
                msgRolls := [?g\<lparr>evaluated := True\<rparr>]\<rparr>)))"
    by (simp add: sample_defs toMessage_def noMessageData_def prepareChatData_def)
  from c19 [THEN mp, OF t] obtain obj rm2 doc where "createMessage sampleHost obj rm2 = Inr doc"
    by blast
  from w16 have w16': "toMessage sampleHost [?g, ?x] noMessageData None True = Inl ?u"
    by simp
  show ?thesis
    by (intro conjI w5 w1 w6 w7 w8 w9 w10 w11 w12 w13 w14 w15 w16' w4 w17 w18 t)
qed

section \<open>Lemmas on preprocessFormula\<close>

lemma zip_cur: "(D @ cur # R) ! length D = cur"
  by simp

lemma zip_prev: "termAt (D @ cur # R) (int (length D) - 1) = lastTerm D"
proof (cases "D = []")
  case True
  then show ?thesis by (simp add: termAt_def lastTerm_def)
next
  case False
  then have "nat (int (length D) - 1) = length D - 1" by simp
  with False show ?thesis
    by (simp add: termAt_def lastTerm_def nth_append last_conv_nth)
qed

lemma zip_next: "termAt (D @ cur # R) (int (length D) + 1) = headTerm R"
proof (cases R)
  case Nil
  then show ?thesis by (simp add: termAt_def headTerm_def)
next
  case (Cons x xs)
  have "nat (int (length D) + 1) = Suc (length D)" by simp
  with Cons show ?thesis
    by (simp add: termAt_def headTerm_def nth_append)
qed

lemma zip_splice1: "splice (D @ cur # R) (length D) (Suc 0) nt = D @ nt # R"
  by (simp add: splice_def)

lemma zip_splice2: "splice (D @ cur # R) (length D) 2 nt = D @ nt # tl R"
  by (simp add: splice_def drop_Suc)

lemma zip_splice_prev2:
  "D \<noteq> [] \<Longrightarrow> splice (D @ cur # R) (length D - Suc 0) 2 nt = butlast D @ nt # R"
  by (cases D rule: rev_cases) (simp_all add: splice_def)

lemma zip_splice_prev3:
  "D \<noteq> [] \<Longrightarrow> splice (D @ cur # R) (length D - Suc 0) 3 nt = butlast D @ nt # tl R"
  by (cases D rule: rev_cases) (simp_all add: splice_def drop_Suc)

lemma lastTerm_string: "isStringTerm (lastTerm D) \<Longrightarrow> D \<noteq> []"
  by (auto simp: lastTerm_def)

lemma lastTerm_snoc: "lastTerm (D @ [t]) = Some t"
  by (simp add: lastTerm_def)

lemma separated_weaken:
  "separated p rest \<Longrightarrow> isStringTerm p \<Longrightarrow> separated q rest"
  by (cases rest) auto

lemma separated_tail: "separated p (t # rest) \<Longrightarrow> separated (Some t) rest"
  by simp

lemma zloop:
  "preprocessLoop h (length D) (D @ cur # R) =
     (case preprocessStep h (length D) (D @ cur # R) of
        Inl e \<Rightarrow> Inl e
      | Inr ts' \<Rightarrow> preprocessLoop h (Suc (length D)) ts')"
  by (subst preprocessLoop.simps) (simp split: sum.splits del: preprocessLoop.simps)

lemma loop_end: "length ts \<le> i \<Longrightarrow> preprocessLoop h i ts = Inr ts"
  by (subst preprocessLoop.simps) (simp del: preprocessLoop.simps)

lemma zstep1:
  assumes "isStringTerm (Some cur)" and "shorthandDie (termText (Some cur))"
    and "\<not> isParentheticalTerm (lastTerm D)"
  shows "preprocessStep h (length D) (D @ cur # R) =
     (case firstTerm h (CHR ''1'' # termText (Some cur)) of
        Inl e \<Rightarrow> Inl e
      | Inr nt \<Rightarrow> Inr (D @ nt # R))"
  using assms
  by (cases "firstTerm h (CHR ''1'' # termText (Some cur))")
     (simp_all add: preprocessStep_def Let_def zip_prev zip_next zip_splice1)

lemma paren_not_string:
  "isParentheticalTerm (Some cur) \<or> isFunctionTerm (Some cur) \<Longrightarrow> \<not> isStringTerm (Some cur)"
  by (cases cur) auto

lemma zstep2:
  assumes "isParentheticalTerm (Some cur)" and "isStringTerm (lastTerm D)"
    and "dicePrefix (termText (lastTerm D))" and "isDeterministic h cur"
    and "evaluateTotal h cur = Inr tot"
  shows "preprocessStep h (length D) (D @ cur # R) =
     (if isStringTerm (headTerm R) then
        (case firstTerm h (termText (lastTerm D) @ tot @ termText (headTerm R)) of
           Inl e \<Rightarrow> Inl e
         | Inr nt \<Rightarrow> Inr (butlast D @ nt # tl R))
      else
        (case firstTerm h (termText (lastTerm D) @ tot) of
           Inl e \<Rightarrow> Inl e
         | Inr nt \<Rightarrow> Inr (butlast D @ nt # R)))"
proof -
  have ns: "\<not> isStringTerm (Some cur)"
    using assms(1) by (simp add: paren_not_string)
  have ne: "D \<noteq> []"
    using assms(2) by (rule lastTerm_string)
  show ?thesis
  proof (cases "isStringTerm (headTerm R)")
    case True
    with assms ns ne show ?thesis
      by (cases "firstTerm h (termText (lastTerm D) @ tot @ termText (headTerm R))")
         (simp_all add: preprocessStep_def Let_def zip_prev zip_next zip_splice_prev3)
  next
    case False
    with assms ns ne show ?thesis
      by (cases "firstTerm h (termText (lastTerm D) @ tot)")
         (simp_all add: preprocessStep_def Let_def zip_prev zip_next zip_splice_prev2)
  qed
qed

lemma zstep2_fail:
  assumes "isParentheticalTerm (Some cur)" and "isStringTerm (lastTerm D)"
    and "dicePrefix (termText (lastTerm D))" and "isDeterministic h cur"
    and "evaluateTotal h cur = Inl e"
  shows "preprocessStep h (length D) (D @ cur # R) = Inl e"
  using assms paren_not_string [of cur]
  by (simp add: preprocessStep_def Let_def zip_prev zip_next)

lemma zstep3:
  assumes "isParentheticalTerm (Some cur) \<or> isFunctionTerm (Some cur)"
    and "\<not> (isParentheticalTerm (Some cur) \<and> isStringTerm (lastTerm D)
             \<and> dicePrefix (termText (lastTerm D)))"
    and "isStringTerm (headTerm R)" and "diceSuffix (termText (headTerm R))"
    and "isDeterministic h cur" and "evaluateTotal h cur = Inr tot"
  shows "preprocessStep h (length D) (D @ cur # R) =
     (case firstTerm h (tot @ termText (headTerm R)) of
        Inl e \<Rightarrow> Inl e
      | Inr nt \<Rightarrow> Inr (D @ nt # tl R))"
  using assms paren_not_string [of cur]
  by (cases "firstTerm h (tot @ termText (headTerm R))")
     (auto simp: preprocessStep_def Let_def zip_prev zip_next zip_splice2)

lemma zstep3_fail:
  assumes "isParentheticalTerm (Some cur) \<or> isFunctionTerm (Some cur)"
    and "\<not> (isParentheticalTerm (Some cur) \<and> isStringTerm (lastTerm D)
             \<and> dicePrefix (termText (lastTerm D)))"
    and "isStringTerm (headTerm R)" and "diceSuffix (termText (headTerm R))"
    and "isDeterministic h cur" and "evaluateTotal h cur = Inl e"
  shows "preprocessStep h (length D) (D @ cur # R) = Inl e"
  using assms paren_not_string [of cur]
  by (auto simp: preprocessStep_def Let_def zip_prev zip_next)

lemma zstep_same:
  assumes "\<not> (isStringTerm (Some cur) \<and> shorthandDie (termText (Some cur))
             \<and> \<not> isParentheticalTerm (lastTerm D))"
    and "\<not> (isParentheticalTerm (Some cur) \<and> isStringTerm (lastTerm D)
             \<and> dicePrefix (termText (lastTerm D)) \<and> isDeterministic h cur)"
    and "\<not> ((isParentheticalTerm (Some cur) \<or> isFunctionTerm (Some cur))
             \<and> \<not> (isParentheticalTerm (Some cur) \<and> isStringTerm (lastTerm D)
                    \<and> dicePrefix (termText (lastTerm D)))
             \<and> isStringTerm (headTerm R) \<and> diceSuffix (termText (headTerm R))
             \<and> isDeterministic h cur)"
  shows "preprocessStep h (length D) (D @ cur # R) = Inr (D @ cur # R)"
  using assms
  by (auto simp: preprocessStep_def Let_def zip_prev zip_next)

lemma skip_inert:
  assumes "inertHead R"
  shows "preprocessLoop h (Suc (length D)) (D @ R) = preprocessLoop h (length D) (D @ R)"
proof (cases R)
  case Nil
  then show ?thesis by (simp add: loop_end del: preprocessLoop.simps)
next
  case (Cons x R2)
  with assms have "preprocessStep h (length D) (D @ x # R2) = Inr (D @ x # R2)"
    by (intro zstep_same) auto
  then show ?thesis
    by (simp add: Cons zloop del: preprocessLoop.simps)
qed

lemma headTerm_string_tl:
  "isStringTerm (headTerm R) \<Longrightarrow> length (tl R) < length R"
  by (cases R) (simp_all add: headTerm_def)

lemma separated_after_string:
  assumes "separated p R" and "isStringTerm (headTerm R)"
  shows "separated q (tl R)"
proof (cases R)
  case Nil
  then show ?thesis by simp
next
  case (Cons x R1)
  with assms have "separated (Some x) R1" and "isStringTerm (Some x)"
    by (simp_all add: headTerm_def)
  then show ?thesis
    using Cons by (simp add: separated_weaken)
qed

lemma separated_after_inert:
  assumes "separated p R" and "inertHead R"
  shows "separated q R"
proof (cases R)
  case Nil
  then show ?thesis by simp
next
  case (Cons x R1)
  with assms show ?thesis by simp
qed

lemma loop_merge:
  "separated (lastTerm D) rest \<Longrightarrow>
   preprocessLoop h (length D) (D @ rest) = mergeTerms h D rest"
proof (induction "length rest" arbitrary: D rest rule: less_induct)
  case less
  show ?case
  proof (cases rest)
    case Nil
    then show ?thesis by (simp add: loop_end del: preprocessLoop.simps)
  next
    case (Cons cur R)
    have sepR: "separated (Some cur) R"
      using less.prems Cons by simp
    have shorter: "length R < length rest"
      using Cons by simp
    let ?b1 = "isStringTerm (Some cur) \<and> shorthandDie (termText (Some cur))
               \<and> \<not> isParentheticalTerm (lastTerm D)"
    let ?p = "isParentheticalTerm (Some cur) \<and> isStringTerm (lastTerm D)
               \<and> dicePrefix (termText (lastTerm D))"
    let ?b2 = "?p \<and> isDeterministic h cur"
    let ?b3 = "(isParentheticalTerm (Some cur) \<or> isFunctionTerm (Some cur)) \<and> \<not> ?p
               \<and> isStringTerm (headTerm R) \<and> diceSuffix (termText (headTerm R))
               \<and> isDeterministic h cur"
    have append_step: "\<And>t. preprocessLoop h (Suc (length D)) (D @ t # R)
                          = preprocessLoop h (length (D @ [t])) ((D @ [t]) @ R)"
      by (simp del: preprocessLoop.simps)
    have append_step_tl: "\<And>t. preprocessLoop h (Suc (length D)) (D @ t # tl R)
                          = preprocessLoop h (length (D @ [t])) ((D @ [t]) @ tl R)"
      by (simp del: preprocessLoop.simps)
    consider (one) ?b1 | (two) "\<not> ?b1" ?b2 | (three) "\<not> ?b1" "\<not> ?b2" ?b3
      | (same) "\<not> ?b1" "\<not> ?b2" "\<not> ?b3"
      by blast
    then show ?thesis
    proof cases
      case one
      then have str: "isStringTerm (Some cur)" by simp
      show ?thesis
      proof (cases "firstTerm h (CHR ''1'' # termText (Some cur))")
        case (Inl e)
        with one show ?thesis
          by (simp add: Cons zloop zstep1 Let_def del: preprocessLoop.simps)
      next
        case (Inr nt)
        have "preprocessLoop h (length D) (D @ rest)
                = preprocessLoop h (Suc (length D)) (D @ nt # R)"
          using one Inr by (simp add: Cons zloop zstep1 del: preprocessLoop.simps)
        also have "\<dots> = preprocessLoop h (length (D @ [nt])) ((D @ [nt]) @ R)"
          by (rule append_step)
        also have "\<dots> = mergeTerms h (D @ [nt]) R"
          using shorter separated_weaken [OF sepR str]
          by (intro less.hyps) (simp_all add: lastTerm_snoc)
        also have "\<dots> = mergeTerms h D rest"
          using one Inr by (simp add: Cons Let_def)
        finally show ?thesis .
      qed
    next
      case two
      then have par: "isParentheticalTerm (Some cur)" and ls: "isStringTerm (lastTerm D)"
        and pre: "dicePrefix (termText (lastTerm D))" and det: "isDeterministic h cur"
        by simp_all
      have nb1: "\<not> isStringTerm (Some cur)"
        using par by (simp add: paren_not_string)
      have inert: "inertHead (if isStringTerm (headTerm R) then tl R else R)"
        using less.prems Cons par ls by simp
      show ?thesis
      proof (cases "evaluateTotal h cur")
        case (Inl e)
        have "preprocessLoop h (length D) (D @ rest) = Inl e"
          using zstep2_fail [OF par ls pre det Inl]
          by (simp add: Cons zloop del: preprocessLoop.simps)
        moreover have "mergeTerms h D rest = Inl e"
          using two nb1 Inl by (simp add: Cons Let_def)
        ultimately show ?thesis by simp
      next
        case (Inr tot)
        note step = zstep2 [OF par ls pre det Inr, of R]
        show ?thesis
        proof (cases "isStringTerm (headTerm R)")
          case True
          with inert have inertT: "inertHead (tl R)" by simp
          show ?thesis
          proof (cases "firstTerm h (termText (lastTerm D) @ tot @ termText (headTerm R))")
            case (Inl e)
            have "preprocessLoop h (length D) (D @ rest) = Inl e"
              using step True Inl by (simp add: Cons zloop del: preprocessLoop.simps)
            moreover have "mergeTerms h D rest = Inl e"
              using two nb1 Inr True Inl by (simp add: Cons Let_def)
            ultimately show ?thesis by simp
          next
            case nt: (Inr nt)
            have len: "length (butlast D @ [nt]) = length D"
              using lastTerm_string [OF ls] by simp
            have "preprocessLoop h (length D) (D @ rest)
                    = preprocessLoop h (Suc (length D)) (butlast D @ nt # tl R)"
              using step True nt by (simp add: Cons zloop del: preprocessLoop.simps)
            also have "\<dots> = preprocessLoop h (Suc (length (butlast D @ [nt])))
                                  ((butlast D @ [nt]) @ tl R)"
              using len by (simp del: preprocessLoop.simps)
            also have "\<dots> = preprocessLoop h (length (butlast D @ [nt]))
                                  ((butlast D @ [nt]) @ tl R)"
              by (rule skip_inert [OF inertT])
            also have "\<dots> = mergeTerms h (butlast D @ [nt]) (tl R)"
              using shorter headTerm_string_tl [OF True]
                separated_after_string [OF sepR True]
              by (intro less.hyps) simp_all
            also have "\<dots> = mergeTerms h D rest"
              using two nb1 Inr True nt by (simp add: Cons Let_def)
            finally show ?thesis .
          qed
        next
          case False
          with inert have inertR: "inertHead R" by simp
          show ?thesis
          proof (cases "firstTerm h (termText (lastTerm D) @ tot)")
            case (Inl e)
            have "preprocessLoop h (length D) (D @ rest) = Inl e"
              using step False Inl by (simp add: Cons zloop del: preprocessLoop.simps)
            moreover have "mergeTerms h D rest = Inl e"
              using two nb1 Inr False Inl by (simp add: Cons Let_def)
            ultimately show ?thesis by simp
          next
            case nt: (Inr nt)
            have len: "length (butlast D @ [nt]) = length D"
              using lastTerm_string [OF ls] by simp
            have "preprocessLoop h (length D) (D @ rest)
                    = preprocessLoop h (Suc (length D)) (butlast D @ nt # R)"
              using step False nt by (simp add: Cons zloop del: preprocessLoop.simps)
            also have "\<dots> = preprocessLoop h (Suc (length (butlast D @ [nt])))
                                  ((butlast D @ [nt]) @ R)"
              using len by (simp del: preprocessLoop.simps)
            also have "\<dots> = preprocessLoop h (length (butlast D @ [nt]))
                                  ((butlast D @ [nt]) @ R)"
              by (rule skip_inert [OF inertR])
            also have "\<dots> = mergeTerms h (butlast D @ [nt]) R"
              using shorter separated_after_inert [OF sepR inertR]
              by (intro less.hyps) simp_all
            also have "\<dots> = mergeTerms h D rest"
              using two nb1 Inr False nt by (simp add: Cons Let_def)
            finally show ?thesis .
          qed
        qed
      qed
    next
      case three
      then have pf: "isParentheticalTerm (Some cur) \<or> isFunctionTerm (Some cur)"
        and np: "\<not> ?p" and ns: "isStringTerm (headTerm R)"
        and suf: "diceSuffix (termText (headTerm R))" and det: "isDeterministic h cur"
        by simp_all
      have nb1: "\<not> isStringTerm (Some cur)"
        using pf by (rule paren_not_string)
      show ?thesis
      proof (cases "evaluateTotal h cur")
        case (Inl e)
        have "preprocessLoop h (length D) (D @ rest) = Inl e"
          using zstep3_fail [OF pf np ns suf det Inl]
          by (simp add: Cons zloop del: preprocessLoop.simps)
        moreover have "mergeTerms h D rest = Inl e"
          using three nb1 Inl by (auto simp: Cons Let_def)
        ultimately show ?thesis by simp
      next
        case (Inr tot)
        note step = zstep3 [OF pf np ns suf det Inr]
        show ?thesis
        proof (cases "firstTerm h (tot @ termText (headTerm R))")
          case (Inl e)
          have "preprocessLoop h (length D) (D @ rest) = Inl e"
            using step Inl by (simp add: Cons zloop del: preprocessLoop.simps)
          moreover have "mergeTerms h D rest = Inl e"
            using three nb1 Inr Inl by (auto simp: Cons Let_def)
          ultimately show ?thesis by simp
        next
          case nt: (Inr nt)
          have "preprocessLoop h (length D) (D @ rest)
                  = preprocessLoop h (Suc (length D)) (D @ nt # tl R)"
            using step nt by (simp add: Cons zloop del: preprocessLoop.simps)
          also have "\<dots> = preprocessLoop h (length (D @ [nt])) ((D @ [nt]) @ tl R)"
            by (rule append_step_tl)
          also have "\<dots> = mergeTerms h (D @ [nt]) (tl R)"
            using shorter headTerm_string_tl [OF ns] separated_after_string [OF sepR ns]
            by (intro less.hyps) simp_all
          also have "\<dots> = mergeTerms h D rest"
            using three nb1 Inr nt by (auto simp: Cons Let_def)
          finally show ?thesis .
        qed
      qed
    next
      case same
      have "preprocessStep h (length D) (D @ cur # R) = Inr (D @ cur # R)"
        using same by (intro zstep_same) auto
      then have "preprocessLoop h (length D) (D @ rest)
              = preprocessLoop h (Suc (length D)) (D @ cur # R)"
        by (simp add: Cons zloop del: preprocessLoop.simps)
      also have "\<dots> = preprocessLoop h (length (D @ [cur])) ((D @ [cur]) @ R)"
        by (rule append_step)
      also have "\<dots> = mergeTerms h (D @ [cur]) R"
        using shorter sepR by (intro less.hyps) (simp_all add: lastTerm_snoc)
      also have "\<dots> = mergeTerms h D rest"
        using same by (auto simp: Cons Let_def)
      finally show ?thesis .
    qed
  qed
qed

section \<open>The rewriting of preprocessFormula (C2)\<close>

text \<open>
  C2, as stated: every string term that matches \<open>^d\d+\<close> and is not preceded by a
  parenthetical term is replaced in place by the term parsed from \<open>1dX\<close>. It fails for
  a string term that follows a deterministic function term: the loop reaches the
  function term first and merges the two, so \<open>floor(2.5)\<close> followed by \<open>d6\<close> becomes
  the one term \<open>2d6\<close>, and no \<open>1d6\<close> is left in place of the string term.
\<close>

theorem preprocessFormula_merges_counterexample:
  "shorthandDie ''d6''
   \<and> \<not> isParentheticalTerm (termAt [FunctionTerm ''floor(2.5)'', StringTerm ''d6''] 0)
   \<and> firstTerm sampleHost ''1d6'' = Inr (DiceTerm 1 6 [] noTermOptions)
   \<and> separated None [FunctionTerm ''floor(2.5)'', StringTerm ''d6'']
   \<and> map_sum id terms (preprocessFormula sampleHost
        (sampleDamage [FunctionTerm ''floor(2.5)'', StringTerm ''d6''] noOptions))
     = Inr [DiceTerm 2 6 [] noTermOptions]"
  by (simp add: sample_defs damage_defs)

text \<open>
  C2, amended: for every term list in which every parenthetical term that directly
  follows a string term is followed, after the string term that directly follows it, if
  any, by the end of the list or by a term that is neither a string, a parenthetical nor
  a function term, \<open>preprocessFormula\<close> returns the list rewritten from left to right
  as \<open>mergeTerms\<close> says: each string term matching \<open>^d\d+\<close> that is not preceded by a
  parenthetical term, and is not merged with a deterministic function term before it,
  is replaced in place by the first term parsed from \<open>1dX\<close>; each deterministic
  parenthetical term preceded by a string term matching \<open>^[0-9]*d$\<close> is merged with
  that prefix and any following string term; each other deterministic parenthetical or
  function term followed by a string term matching \<open>^d[0-9]*$\<close> is merged with it;
  every other term is kept; and the call fails exactly when one of these parses or
  evaluations does. The formula is compiled from the new list and
  \<open>options.preprocessed\<close> is set.
\<close>

theorem preprocessFormula_merges:
  assumes "separated None (terms r)"
  shows "preprocessFormula h r =
     (case mergeTerms h [] (terms r) of
        Inl e \<Rightarrow> Inl e
      | Inr ts \<Rightarrow>
          Inr (r\<lparr>terms := ts, formula := getFormula h ts,
                 options := (options r)\<lparr>preprocessed := True\<rparr>\<rparr>))"
proof -
  have "separated (lastTerm []) (terms r)"
    using assms by (simp add: lastTerm_def)
  from loop_merge [OF this, of h]
  have "preprocessLoop h 0 (terms r) = mergeTerms h [] (terms r)"
    by (simp del: preprocessLoop.simps)
  then show ?thesis
    by (simp add: preprocessFormula_def del: preprocessLoop.simps)
qed

theorem preprocessFormula_merges_witness:
  "separated None
     [StringTerm ''2d'', ParentheticalTerm ''3'', StringTerm ''kh'', OperatorTerm ''+'',
      FunctionTerm ''floor(2.5)'', StringTerm ''d6'', OperatorTerm ''+'', StringTerm ''d8'',
      OperatorTerm ''-'', ParentheticalTerm ''7'', StringTerm ''d4'']
   \<and> mergeTerms sampleHost []
     [StringTerm ''2d'', ParentheticalTerm ''3'', StringTerm ''kh'', OperatorTerm ''+'',
      FunctionTerm ''floor(2.5)'', StringTerm ''d6'', OperatorTerm ''+'', StringTerm ''d8'',
      OperatorTerm ''-'', ParentheticalTerm ''7'', StringTerm ''d4'']
     = Inr [DiceTerm 2 3 ''kh'' noTermOptions, OperatorTerm ''+'', DiceTerm 2 6 [] noTermOptions,
            OperatorTerm ''+'', DiceTerm 1 8 [] noTermOptions, OperatorTerm ''-'',
            DiceTerm 7 4 [] noTermOptions]
   \<and> preprocessFormula sampleHost
       (sampleDamage
          [StringTerm ''2d'', ParentheticalTerm ''3'', StringTerm ''kh'', OperatorTerm ''+'',
           FunctionTerm ''floor(2.5)'', StringTerm ''d6'', OperatorTerm ''+'', StringTerm ''d8'',
           OperatorTerm ''-'', ParentheticalTerm ''7'', StringTerm ''d4'']
          noOptions)
     = Inr (sampleDamage
          [DiceTerm 2 3 ''kh'' noTermOptions, OperatorTerm ''+'', DiceTerm 2 6 [] noTermOptions,
           OperatorTerm ''+'', DiceTerm 1 8 [] noTermOptions, OperatorTerm ''-'',
           DiceTerm 7 4 [] noTermOptions]
          (noOptions\<lparr>preprocessed := True\<rparr>))"
proof -
  let ?ts = "[StringTerm ''2d'', ParentheticalTerm ''3'', StringTerm ''kh'', OperatorTerm ''+'',
      FunctionTerm ''floor(2.5)'', StringTerm ''d6'', OperatorTerm ''+'', StringTerm ''d8'',
      OperatorTerm ''-'', ParentheticalTerm ''7'', StringTerm ''d4'']"
  let ?out = "[DiceTerm 2 3 ''kh'' noTermOptions, OperatorTerm ''+'', DiceTerm 2 6 [] noTermOptions,
            OperatorTerm ''+'', DiceTerm 1 8 [] noTermOptions, OperatorTerm ''-'',
            DiceTerm 7 4 [] noTermOptions]"
  have s: "separated None ?ts"
    by (simp add: headTerm_def)
  then have s': "separated None (terms (sampleDamage ?ts noOptions))"
    by (simp only: sampleDamage_def damage_roll.simps)
  have m: "mergeTerms sampleHost [] ?ts = Inr ?out"
    by (simp add: sample_defs firstTerm_def termAt_def dicePrefix_def lastTerm_def headTerm_def
        Let_def)
  then have m': "mergeTerms sampleHost [] (terms (sampleDamage ?ts noOptions)) = Inr ?out"
    by (simp only: sampleDamage_def damage_roll.simps)
  have "preprocessFormula sampleHost (sampleDamage ?ts noOptions)
      = Inr (sampleDamage ?out (noOptions\<lparr>preprocessed := True\<rparr>))"
    using preprocessFormula_merges [OF s', of sampleHost] m'
    by (simp add: sample_defs del: preprocessLoop.simps mergeTerms.simps)
  with s m show ?thesis
    by (simp del: preprocessLoop.simps mergeTerms.simps separated.simps)
qed

text \<open>
  Outside such lists the loop of the source, which splices the array it iterates, can
  pass over a term: after the prefix merge of \<open>2d\<close> and \<open>(3)\<close> the index goes past
  \<open>(2)\<close>, so \<open>(2)\<close> and \<open>d6\<close> are left unmerged.
\<close>

lemma preprocessFormula_passes_over_term:
  "\<not> separated None
       [StringTerm ''2d'', ParentheticalTerm ''3'', ParentheticalTerm ''2'', StringTerm ''d6'']
   \<and> map_sum id terms (preprocessFormula sampleHost
        (sampleDamage
           [StringTerm ''2d'', ParentheticalTerm ''3'', ParentheticalTerm ''2'', StringTerm ''d6'']
           noOptions))
     = Inr [DiceTerm 2 3 [] noTermOptions, ParentheticalTerm ''2'', StringTerm ''d6'']
   \<and> mergeTerms sampleHost []
        [StringTerm ''2d'', ParentheticalTerm ''3'', ParentheticalTerm ''2'', StringTerm ''d6'']
     = Inr [DiceTerm 2 3 [] noTermOptions, DiceTerm 2 6 [] noTermOptions]"
  by (simp add: sample_defs damage_defs lastTerm_def headTerm_def)

end
